theory Spec2Isabelle
  imports Complex_Main "HOL-Library.Word"
begin

section \<open>Client detection (src/lib/detect.ts)\<close>

text \<open>
  The module turns a request's headers, an optional payload and the process environment
  into an IP address, a location, a device class and a blocklist verdict. Each exported
  function of \<^verbatim>\<open>detect.ts\<close> is embedded below under its own name. Exceptions are
  values of the type \<open>error\<close>; a function that can throw returns \<open>error + 'a\<close>.
\<close>

subsection \<open>JavaScript strings\<close>

text \<open>
  A JavaScript string is a sequence of 16-bit code units. \<open>js\<close> embeds an ASCII literal.
\<close>

type_synonym code_unit = "16 word"
type_synonym jsstring = "code_unit list"

definition js :: "string \<Rightarrow> jsstring" where
  "js s = map of_char s"

text \<open>Truthiness of a value of type \<^verbatim>\<open>string | null | undefined\<close>.\<close>

fun truthy :: "jsstring option \<Rightarrow> bool" where
  "truthy None = False"
| "truthy (Some s) = (s \<noteq> [])"

text \<open>
  \<^verbatim>\<open>String.prototype.trim\<close> removes WhiteSpace and LineTerminator code units
  from both ends.
\<close>

definition is_white_space :: "code_unit \<Rightarrow> bool" where
  "is_white_space c \<longleftrightarrow>
     c = 0x9 \<or> c = 0xA \<or> c = 0xB \<or> c = 0xC \<or> c = 0xD \<or> c = 0x20 \<or> c = 0xA0 \<or>
     c = 0x1680 \<or> (0x2000 \<le> c \<and> c \<le> 0x200A) \<or> c = 0x2028 \<or> c = 0x2029 \<or>
     c = 0x202F \<or> c = 0x205F \<or> c = 0x3000 \<or> c = 0xFEFF"

definition trim :: "jsstring \<Rightarrow> jsstring" where
  "trim s = rev (dropWhile is_white_space (rev (dropWhile is_white_space s)))"

text \<open>
  \<^verbatim>\<open>s.split(sep)\<close> for a one-character separator: the pieces between the
  separators, in order; never the empty array.
\<close>

fun js_split :: "code_unit \<Rightarrow> jsstring \<Rightarrow> jsstring list" where
  "js_split sep [] = [[]]"
| "js_split sep (c # cs) =
     (if c = sep then [] # js_split sep cs
      else (case js_split sep cs of
              [] \<Rightarrow> [[c]]
            | p # ps \<Rightarrow> (c # p) # ps))"

text \<open>\<^verbatim>\<open>s.split(sep)[0]\<close>, which is \<^verbatim>\<open>undefined\<close> on an empty array.\<close>

definition first_piece :: "code_unit \<Rightarrow> jsstring \<Rightarrow> jsstring option" where
  "first_piece sep s = (case js_split sep s of [] \<Rightarrow> None | p # _ \<Rightarrow> Some p)"

subsection \<open>Errors\<close>

datatype error =
    TypeError \<comment> \<open>\<^verbatim>\<open>Headers.get\<close> on a string that is not a header name\<close>
  | ParseError \<comment> \<open>thrown by the address parser of ipaddr.js\<close>
  | OpenError \<comment> \<open>\<^verbatim>\<open>maxmind.open\<close> rejected\<close>

definition and_then :: "error + 'a \<Rightarrow> ('a \<Rightarrow> error + 'b) \<Rightarrow> error + 'b" where
  "and_then m f = (case m of Inl e \<Rightarrow> Inl e | Inr x \<Rightarrow> f x)"

subsection \<open>Request headers\<close>

text \<open>
  A \<^verbatim>\<open>Headers\<close> object: a map from lower-case header names to values.
  \<^verbatim>\<open>get(name)\<close> throws a TypeError when \<open>name\<close> is not an HTTP token, and looks
  the name up case-insensitively otherwise; an absent header gives \<^verbatim>\<open>null\<close>.
\<close>

type_synonym headers = "jsstring \<rightharpoonup> jsstring"

definition is_alpha_upper :: "code_unit \<Rightarrow> bool" where
  "is_alpha_upper c \<longleftrightarrow> 0x41 \<le> c \<and> c \<le> 0x5A"

definition is_alpha_lower :: "code_unit \<Rightarrow> bool" where
  "is_alpha_lower c \<longleftrightarrow> 0x61 \<le> c \<and> c \<le> 0x7A"

definition is_digit :: "code_unit \<Rightarrow> bool" where
  "is_digit c \<longleftrightarrow> 0x30 \<le> c \<and> c \<le> 0x39"

definition is_tchar :: "code_unit \<Rightarrow> bool" where
  "is_tchar c \<longleftrightarrow>
     is_alpha_upper c \<or> is_alpha_lower c \<or> is_digit c \<or>
     c \<in> set (js ''!#$%&*+-.^_`|~'') \<or> c = 0x27"

definition is_header_name :: "jsstring \<Rightarrow> bool" where
  "is_header_name n \<longleftrightarrow> n \<noteq> [] \<and> list_all is_tchar n"

definition ascii_lower :: "code_unit \<Rightarrow> code_unit" where
  "ascii_lower c = (if is_alpha_upper c then c + 0x20 else c)"

definition headers_get :: "headers \<Rightarrow> jsstring \<Rightarrow> error + jsstring option" where
  "headers_get h name =
     (if is_header_name name then Inr (h (map ascii_lower name)) else Inl TypeError)"

subsection \<open>Configuration\<close>

text \<open>
  The variables of \<^verbatim>\<open>process.env\<close> that the module reads; an unset variable is
  \<^verbatim>\<open>undefined\<close>.
\<close>

record env =
  CLIENT_IP_HEADER :: "jsstring option"
  SKIP_LOCATION_HEADERS :: "jsstring option"
  GEOLITE_DB_PATH :: "jsstring option"
  IGNORE_IP :: "jsstring option"

text \<open>
  The values imported from \<^verbatim>\<open>./constants\<close>. That file is not part of the sources
  at hand, so the functions below take its values as a parameter.
\<close>

record constants =
  DESKTOP_OS :: "jsstring list"
  MOBILE_OS :: "jsstring list"
  DESKTOP_SCREEN_WIDTH :: rat
  LAPTOP_SCREEN_WIDTH :: rat
  MOBILE_SCREEN_WIDTH :: rat
  IP_ADDRESS_HEADERS :: "jsstring list"

subsection \<open>getIpAddress\<close>

text \<open>
  The pattern \<^verbatim>\<open>/for=(\[?[0-9a-fA-F:.]+\]?)/\<close>. \<open>forwarded_match_here s\<close> is the
  first group of a match that starts at the head of \<open>s\<close>: after \<^verbatim>\<open>for=\<close>, an
  optional opening bracket, the longest non-empty run of class characters, and an
  optional closing bracket. \<open>forwarded_match\<close> tries every start position from the left,
  as \<^verbatim>\<open>String.prototype.match\<close> does.
\<close>

definition is_for_char :: "code_unit \<Rightarrow> bool" where
  "is_for_char c \<longleftrightarrow>
     is_digit c \<or> (0x61 \<le> c \<and> c \<le> 0x66) \<or> (0x41 \<le> c \<and> c \<le> 0x46) \<or> c = 0x3A \<or> c = 0x2E"

definition strip_prefix :: "jsstring \<Rightarrow> jsstring \<Rightarrow> jsstring option" where
  "strip_prefix p s = (if take (length p) s = p then Some (drop (length p) s) else None)"

definition forwarded_match_here :: "jsstring \<Rightarrow> jsstring option" where
  "forwarded_match_here s =
     (case strip_prefix (js ''for='') s of
        None \<Rightarrow> None
      | Some r \<Rightarrow>
          let (opening, r1) = (case r of c # cs \<Rightarrow> if c = 0x5B then ([c], cs) else ([], r) | [] \<Rightarrow> ([], r));
              run = takeWhile is_for_char r1;
              r2 = dropWhile is_for_char r1;
              closing = (case r2 of c # _ \<Rightarrow> if c = 0x5D then [c] else [] | [] \<Rightarrow> [])
          in if run = [] then None else Some (opening @ run @ closing))"

fun forwarded_match :: "jsstring \<Rightarrow> jsstring option" where
  "forwarded_match [] = None"
| "forwarded_match (c # cs) =
     (case forwarded_match_here (c # cs) of
        Some g \<Rightarrow> Some g
      | None \<Rightarrow> forwarded_match cs)"

text \<open>The loop over \<^verbatim>\<open>IP_ADDRESS_HEADERS\<close> (step 4 of \<^verbatim>\<open>getIpAddress\<close>).\<close>

fun fallback_headers :: "headers \<Rightarrow> jsstring list \<Rightarrow> error + jsstring option" where
  "fallback_headers h [] = Inr None"
| "fallback_headers h (name # names) =
     (case headers_get h name of
        Inl e \<Rightarrow> Inl e
      | Inr None \<Rightarrow> fallback_headers h names
      | Inr (Some ip) \<Rightarrow>
          if ip = [] then fallback_headers h names
          else if name = js ''forwarded'' then
            (case forwarded_match ip of
               Some g \<Rightarrow> Inr (Some g)
             | None \<Rightarrow> Inr (Some ip))
          else Inr (Some ip))"

definition getIpAddress :: "constants \<Rightarrow> env \<Rightarrow> headers \<Rightarrow> error + jsstring option" where
  "getIpAddress c e h =
     and_then (headers_get h (js ''cf-connecting-ip'')) (\<lambda>cfIp.
       if truthy cfIp then Inr cfIp
       else
         and_then
           (case CLIENT_IP_HEADER e of
              None \<Rightarrow> Inr None
            | Some customHeader \<Rightarrow>
                if customHeader = [] then Inr None else headers_get h customHeader)
           (\<lambda>custom.
              if truthy custom then Inr custom
              else
                and_then (headers_get h (js ''x-forwarded-for'')) (\<lambda>forwardedFor.
                  case forwardedFor of
                    None \<Rightarrow> fallback_headers h (IP_ADDRESS_HEADERS c)
                  | Some v \<Rightarrow>
                      if v = [] then fallback_headers h (IP_ADDRESS_HEADERS c)
                      else Inr (map_option trim (first_piece 0x2C v)))))"

text \<open>
  The parts of the precedence, named for the statements below: the value found under the
  configured custom header, the configurations whose custom header name is unset, empty
  or an HTTP token (so that looking it up does not throw), the value returned for a
  fallback header, and the first fallback header with a non-empty value.
\<close>

definition custom_value :: "env \<Rightarrow> headers \<Rightarrow> jsstring option" where
  "custom_value e h =
     (case CLIENT_IP_HEADER e of
        None \<Rightarrow> None
      | Some n \<Rightarrow> if n = [] then None else h (map ascii_lower n))"

definition custom_header_ok :: "env \<Rightarrow> bool" where
  "custom_header_ok e =
     (case CLIENT_IP_HEADER e of None \<Rightarrow> True | Some n \<Rightarrow> n = [] \<or> is_header_name n)"

definition fallback_value :: "jsstring \<Rightarrow> jsstring \<Rightarrow> jsstring" where
  "fallback_value name v =
     (if name = js ''forwarded''
      then (case forwarded_match v of Some g \<Rightarrow> g | None \<Rightarrow> v)
      else v)"

definition first_fallback :: "headers \<Rightarrow> jsstring list \<Rightarrow> jsstring option" where
  "first_fallback h names =
     Option.bind (List.find (\<lambda>n. truthy (h (map ascii_lower n))) names)
       (\<lambda>n. map_option (fallback_value n) (h (map ascii_lower n)))"

subsection \<open>Numbers\<close>

text \<open>
  A JavaScript number: NaN, the two infinities, or a finite double, held as the rational
  it denotes (the sign of zero plays no part in a comparison).
\<close>

datatype number = NaN | Finite rat | PosInfinity | NegInfinity

fun negate :: "number \<Rightarrow> number" where
  "negate NaN = NaN"
| "negate (Finite q) = Finite (- q)"
| "negate PosInfinity = NegInfinity"
| "negate NegInfinity = PosInfinity"

text \<open>The relational operators against a finite number; every comparison with NaN is false.\<close>

fun num_lt :: "number \<Rightarrow> rat \<Rightarrow> bool" where
  "num_lt NaN t = False"
| "num_lt (Finite q) t = (q < t)"
| "num_lt PosInfinity t = False"
| "num_lt NegInfinity t = True"

fun num_gt :: "number \<Rightarrow> rat \<Rightarrow> bool" where
  "num_gt NaN t = False"
| "num_gt (Finite q) t = (t < q)"
| "num_gt PosInfinity t = True"
| "num_gt NegInfinity t = False"

fun num_ge :: "number \<Rightarrow> rat \<Rightarrow> bool" where
  "num_ge NaN t = False"
| "num_ge (Finite q) t = (t \<le> q)"
| "num_ge PosInfinity t = True"
| "num_ge NegInfinity t = False"

text \<open>
  Rounding to the nearest double, ties to even: \<open>round_ratio a b\<close> is the number value of
  the positive rational \<open>a / b\<close>. The exponent is clamped at the subnormal range, and a
  result of \<open>2 ^ 1024\<close> or more is infinite.
\<close>

function bit_length :: "int \<Rightarrow> nat" where
  "bit_length n = (if n \<le> 0 then 0 else Suc (bit_length (n div 2)))"
  by pat_completeness auto
termination
  by (relation "measure nat") auto

declare bit_length.simps [simp del]

definition pow2 :: "int \<Rightarrow> rat" where
  "pow2 e = (if 0 \<le> e then 2 ^ nat e else 1 / 2 ^ nat (- e))"

definition round_half_even :: "rat \<Rightarrow> int" where
  "round_half_even x =
     (let f = \<lfloor>x\<rfloor>; d = x - of_int f
      in if d < 1 / 2 then f else if 1 / 2 < d then f + 1 else if even f then f else f + 1)"

definition round_ratio :: "int \<Rightarrow> int \<Rightarrow> number" where
  "round_ratio a b =
     (let q = of_int a / of_int b;
          d = int (bit_length a) - int (bit_length b);
          e = (if pow2 d \<le> q then d else d - 1);
          ulp = pow2 (max e (- 1022) - 52);
          r = of_int (round_half_even (q / ulp)) * ulp
      in if pow2 1024 \<le> r then PosInfinity else Finite r)"

text \<open>The number value of the mantissa \<open>m \<ge> 0\<close> scaled by \<open>10 ^ k\<close>.\<close>

definition scale10 :: "int \<Rightarrow> int \<Rightarrow> number" where
  "scale10 m k =
     (if m = 0 then Finite 0
      else if 0 \<le> k then round_ratio (m * 10 ^ nat k) 1
      else round_ratio m (10 ^ nat (- k)))"

text \<open>
  The unary plus on a string (StringToNumber): white space is trimmed; the empty string is
  0; a literal with a radix prefix has no sign; a decimal literal is an optional sign and
  \<^verbatim>\<open>Infinity\<close>, or digits with an optional fraction and an optional exponent; every
  other string is NaN.
\<close>

definition is_hex_digit :: "code_unit \<Rightarrow> bool" where
  "is_hex_digit c \<longleftrightarrow> is_digit c \<or> (0x61 \<le> c \<and> c \<le> 0x66) \<or> (0x41 \<le> c \<and> c \<le> 0x46)"

definition digit_value :: "code_unit \<Rightarrow> int" where
  "digit_value c =
     (if is_digit c then uint c - 0x30
      else if 0x61 \<le> c then uint c - 0x57
      else uint c - 0x37)"

definition radix_value :: "int \<Rightarrow> jsstring \<Rightarrow> int" where
  "radix_value b ds = foldl (\<lambda>a c. b * a + digit_value c) 0 ds"

definition digits_opt :: "jsstring \<Rightarrow> int option" where
  "digits_opt ds =
     (if ds \<noteq> [] \<and> list_all is_digit ds then Some (radix_value 10 ds) else None)"

definition exponent_part :: "jsstring \<Rightarrow> int option" where
  "exponent_part r =
     (case r of
        [] \<Rightarrow> Some 0
      | c # t \<Rightarrow>
          if c = 0x65 \<or> c = 0x45 then
            (case t of
               [] \<Rightarrow> None
             | s # ds \<Rightarrow>
                 if s = 0x2B then digits_opt ds
                 else if s = 0x2D then map_option uminus (digits_opt ds)
                 else digits_opt t)
          else None)"

definition unsigned_decimal :: "jsstring \<Rightarrow> number" where
  "unsigned_decimal u =
     (if u = js ''Infinity'' then PosInfinity
      else
        let ip = takeWhile is_digit u;
            r1 = dropWhile is_digit u;
            (fp, r2) = (case r1 of
                          [] \<Rightarrow> ([], [])
                        | c # t \<Rightarrow>
                            if c = 0x2E then (takeWhile is_digit t, dropWhile is_digit t)
                            else ([], r1))
        in if ip = [] \<and> fp = [] then NaN
           else (case exponent_part r2 of
                   None \<Rightarrow> NaN
                 | Some ex \<Rightarrow> scale10 (radix_value 10 (ip @ fp)) (ex - int (length fp))))"

definition non_decimal :: "jsstring \<Rightarrow> int option" where
  "non_decimal t =
     (case t of
        z # p # ds \<Rightarrow>
          if z = 0x30 \<and> ds \<noteq> [] then
            (if (p = 0x78 \<or> p = 0x58) \<and> list_all is_hex_digit ds then Some (radix_value 16 ds)
             else if (p = 0x6F \<or> p = 0x4F) \<and> list_all (\<lambda>c. 0x30 \<le> c \<and> c \<le> 0x37) ds
               then Some (radix_value 8 ds)
             else if (p = 0x62 \<or> p = 0x42) \<and> list_all (\<lambda>c. c = 0x30 \<or> c = 0x31) ds
               then Some (radix_value 2 ds)
             else None)
          else None
      | _ \<Rightarrow> None)"

definition to_number :: "jsstring \<Rightarrow> number" where
  "to_number s =
     (let t = trim s
      in if t = [] then Finite 0
         else (case non_decimal t of
                 Some n \<Rightarrow> scale10 n 0
               | None \<Rightarrow>
                   (case t of
                      [] \<Rightarrow> NaN
                    | c # u \<Rightarrow>
                        if c = 0x2B then unsigned_decimal u
                        else if c = 0x2D then negate (unsigned_decimal u)
                        else unsigned_decimal t)))"

subsection \<open>getDevice\<close>

datatype device = desktop | laptop | tablet | mobile

text \<open>
  \<^verbatim>\<open>const [width] = screen.split('x')\<close> followed by \<^verbatim>\<open>+width\<close>; an
  \<^verbatim>\<open>undefined\<close> width would coerce to NaN.
\<close>

definition screen_width :: "jsstring \<Rightarrow> number" where
  "screen_width screen = (case first_piece 0x78 screen of None \<Rightarrow> NaN | Some width \<Rightarrow> to_number width)"

definition getDevice :: "constants \<Rightarrow> jsstring option \<Rightarrow> jsstring \<Rightarrow> device option" where
  "getDevice c screen os =
     (case screen of
        None \<Rightarrow> None
      | Some s \<Rightarrow>
          if s = [] then None
          else
            let width = screen_width s
            in if os \<in> set (DESKTOP_OS c) then
                 (if os = js ''Chrome OS'' \<or> num_lt width (DESKTOP_SCREEN_WIDTH c) then Some laptop
                  else Some desktop)
               else if os \<in> set (MOBILE_OS c) then
                 (if os = js ''Amazon OS'' \<or> num_gt width (MOBILE_SCREEN_WIDTH c) then Some tablet
                  else Some mobile)
               else if num_ge width (DESKTOP_SCREEN_WIDTH c) then Some desktop
               else if num_ge width (LAPTOP_SCREEN_WIDTH c) then Some laptop
               else if num_ge width (MOBILE_SCREEN_WIDTH c) then Some tablet
               else Some mobile)"

subsection \<open>hasBlockedIp\<close>

text \<open>
  The address library (ipaddr.js) is a dependency and not part of the sources, so
  \<^verbatim>\<open>hasBlockedIp\<close> takes the four operations it calls as a parameter: \<^verbatim>\<open>parse\<close> and
  \<^verbatim>\<open>parseCIDR\<close>, which return or throw, \<^verbatim>\<open>kind()\<close>, and \<^verbatim>\<open>match(range)\<close>.
\<close>

datatype kind = ipv4 | ipv6

record 'a ipaddr =
  parse :: "jsstring \<Rightarrow> error + 'a"
  parseCIDR :: "jsstring \<Rightarrow> error + ('a \<times> nat)"
  kind_of :: "'a \<Rightarrow> kind"
  match_range :: "'a \<Rightarrow> 'a \<times> nat \<Rightarrow> error + bool"

text \<open>The values that \<^verbatim>\<open>hasBlockedIp\<close> can return, and their truthiness.\<close>

datatype jsvalue = Boolean bool | String jsstring | Undefined

fun truthy_value :: "jsvalue \<Rightarrow> bool" where
  "truthy_value (Boolean b) = b"
| "truthy_value (String s) = (s \<noteq> [])"
| "truthy_value Undefined = False"

text \<open>\<^verbatim>\<open>s.indexOf(c)\<close>: the position of the first \<open>c\<close>, or \<open>-1\<close>.\<close>

fun index_of :: "code_unit \<Rightarrow> jsstring \<Rightarrow> int" where
  "index_of c [] = - 1"
| "index_of c (x # xs) =
     (if x = c then 0 else (let i = index_of c xs in if i < 0 then - 1 else i + 1))"

text \<open>
  The callback given to \<^verbatim>\<open>find\<close>: \<open>True\<close> for \<^verbatim>\<open>return true\<close>, \<open>False\<close> for
  falling off the end, and an error when one of the library calls throws.
\<close>

definition entry_blocks :: "'a ipaddr \<Rightarrow> jsstring \<Rightarrow> jsstring \<Rightarrow> error + bool" where
  "entry_blocks lib clientIp ip =
     (if ip = clientIp then Inr True
      else if 0 < index_of 0x2F ip then
        and_then (parse lib clientIp) (\<lambda>addr.
          and_then (parseCIDR lib ip) (\<lambda>rng.
            if kind_of lib addr = kind_of lib (fst rng) then match_range lib addr rng
            else Inr False))
      else Inr False)"

text \<open>\<^verbatim>\<open>ips.find(callback)\<close>: the first element for which the callback is truthy.\<close>

fun find_entry :: "'a ipaddr \<Rightarrow> jsstring \<Rightarrow> jsstring list \<Rightarrow> error + jsstring option" where
  "find_entry lib clientIp [] = Inr None"
| "find_entry lib clientIp (ip # ips) =
     and_then (entry_blocks lib clientIp ip) (\<lambda>b.
       if b then Inr (Some ip) else find_entry lib clientIp ips)"

definition hasBlockedIp :: "'a ipaddr \<Rightarrow> env \<Rightarrow> jsstring \<Rightarrow> error + jsvalue" where
  "hasBlockedIp lib e clientIp =
     (case IGNORE_IP e of
        None \<Rightarrow> Inr (Boolean False)
      | Some ignoreIps \<Rightarrow>
          if ignoreIps = [] then Inr (Boolean False)
          else
            and_then (find_entry lib clientIp (map trim (js_split 0x2C ignoreIps))) (\<lambda>found.
              case found of
                None \<Rightarrow> Inr Undefined
              | Some ip \<Rightarrow> Inr (String ip)))"

text \<open>
  Whether an entry of the list blocks the candidate, and whether evaluating it throws,
  stated on the results of the library calls.
\<close>

definition entry_matches :: "'a ipaddr \<Rightarrow> jsstring \<Rightarrow> jsstring \<Rightarrow> bool" where
  "entry_matches lib clientIp ip \<longleftrightarrow>
     ip = clientIp \<or>
     (0 < index_of 0x2F ip \<and>
      (case (parse lib clientIp, parseCIDR lib ip) of
         (Inr addr, Inr rng) \<Rightarrow>
           kind_of lib addr = kind_of lib (fst rng) \<and> match_range lib addr rng = Inr True
       | _ \<Rightarrow> False))"

definition entry_throws :: "'a ipaddr \<Rightarrow> jsstring \<Rightarrow> jsstring \<Rightarrow> error option" where
  "entry_throws lib clientIp ip =
     (if ip = clientIp \<or> \<not> 0 < index_of 0x2F ip then None
      else (case parse lib clientIp of
              Inl err \<Rightarrow> Some err
            | Inr addr \<Rightarrow>
                (case parseCIDR lib ip of
                   Inl err \<Rightarrow> Some err
                 | Inr rng \<Rightarrow>
                     if kind_of lib addr = kind_of lib (fst rng) then
                       (case match_range lib addr rng of Inl err \<Rightarrow> Some err | Inr _ \<Rightarrow> None)
                     else None)))"

text \<open>The configured list: the pieces of \<^verbatim>\<open>IGNORE_IP\<close> between commas, trimmed.\<close>

definition blocklist :: "jsstring \<Rightarrow> jsstring list" where
  "blocklist ignoreIps = map trim (js_split 0x2C ignoreIps)"

subsection \<open>decodeHeader and getRegionCode\<close>

text \<open>
  \<^verbatim>\<open>Buffer.from(s, 'latin1')\<close> keeps the low byte of every code unit.
  \<^verbatim>\<open>toString('utf-8')\<close> decodes the bytes as UTF-8 and puts U+FFFD in the place of every
  ill-formed sequence: \<open>utf8_decode cp needed lo hi\<close> carries the code point read so far,
  the number of continuation bytes still needed and the bounds of the next continuation
  byte; a byte outside the bounds ends the sequence and is read again as a first byte.
  A code point above U+FFFF becomes a surrogate pair.
\<close>

definition latin1_bytes :: "jsstring \<Rightarrow> nat list" where
  "latin1_bytes s = map (\<lambda>c. unat c mod 256) s"

fun utf8_decode :: "nat \<Rightarrow> nat \<Rightarrow> nat \<Rightarrow> nat \<Rightarrow> nat list \<Rightarrow> nat list" where
  "utf8_decode cp needed lo hi [] = (if needed = 0 then [] else [0xFFFD])"
| "utf8_decode cp needed lo hi (b # bs) =
     (if needed = 0 then
        (if b \<le> 0x7F then b # utf8_decode 0 0 0x80 0xBF bs
         else if 0xC2 \<le> b \<and> b \<le> 0xDF then utf8_decode (b mod 32) 1 0x80 0xBF bs
         else if 0xE0 \<le> b \<and> b \<le> 0xEF then
           utf8_decode (b mod 16) 2 (if b = 0xE0 then 0xA0 else 0x80) (if b = 0xED then 0x9F else 0xBF) bs
         else if 0xF0 \<le> b \<and> b \<le> 0xF4 then
           utf8_decode (b mod 8) 3 (if b = 0xF0 then 0x90 else 0x80) (if b = 0xF4 then 0x8F else 0xBF) bs
         else 0xFFFD # utf8_decode 0 0 0x80 0xBF bs)
      else if b < lo \<or> hi < b then 0xFFFD # utf8_decode 0 0 0x80 0xBF (b # bs)
      else if needed = 1 then (cp * 64 + b mod 64) # utf8_decode 0 0 0x80 0xBF bs
      else utf8_decode (cp * 64 + b mod 64) (needed - 1) 0x80 0xBF bs)"

definition utf16_units :: "nat \<Rightarrow> jsstring" where
  "utf16_units cp =
     (if cp < 0x10000 then [of_nat cp]
      else [of_nat (0xD800 + (cp - 0x10000) div 0x400), of_nat (0xDC00 + (cp - 0x10000) mod 0x400)])"

definition decodeHeader :: "jsstring option \<Rightarrow> jsstring option" where
  "decodeHeader s =
     (case s of
        None \<Rightarrow> None
      | Some v \<Rightarrow> Some (concat (map utf16_units (utf8_decode 0 0 0x80 0xBF (latin1_bytes v)))))"

definition getRegionCode :: "jsstring option \<Rightarrow> jsstring option \<Rightarrow> jsstring option" where
  "getRegionCode country region =
     (case country of
        None \<Rightarrow> None
      | Some c \<Rightarrow>
          if c = [] then None
          else (case region of
                  None \<Rightarrow> None
                | Some r \<Rightarrow>
                    if r = [] then None
                    else if 0x2D \<in> set r then Some r
                    else Some (c @ js ''-'' @ r)))"

subsection \<open>getLocation\<close>

text \<open>
  The result of a database lookup, reduced to the fields that are read:
  \<^verbatim>\<open>country?.iso_code\<close>, \<^verbatim>\<open>registered_country?.iso_code\<close>, the
  \<^verbatim>\<open>iso_code\<close> of each subdivision, and \<^verbatim>\<open>city?.names?.en\<close>.
\<close>

record city_response =
  country_iso_code :: "jsstring option"
  registered_country_iso_code :: "jsstring option"
  subdivisions_iso_code :: "jsstring option list"
  city_names_en :: "jsstring option"

record location =
  country :: "jsstring option"
  region :: "jsstring option"
  city :: "jsstring option"

text \<open>
  What \<^verbatim>\<open>getLocation\<close> calls outside the module: \<^verbatim>\<open>isLocalhost\<close>,
  \<^verbatim>\<open>maxmind.open\<close>, the \<^verbatim>\<open>get\<close> of the reader it returns, and the default
  path \<^verbatim>\<open>path.resolve(path.join(process.cwd(), 'geo'), 'GeoLite2-City.mmdb')\<close>. Each
  call returns or throws. The IP is \<^verbatim>\<open>null\<close> or a string.
\<close>

record 'r geo =
  isLocalhost :: "jsstring option \<Rightarrow> error + bool"
  maxmind_open :: "jsstring \<Rightarrow> error + 'r"
  reader_get :: "'r \<Rightarrow> jsstring option \<Rightarrow> error + city_response option"
  default_path :: jsstring

text \<open>
  The process state: \<^verbatim>\<open>global[MAXMIND]\<close>, and a log of the calls made to the
  database, the paths opened and the keys looked up, in order.
\<close>

record 'r state =
  global_maxmind :: "'r option"
  opens :: "jsstring list"
  lookups :: "jsstring option list"

definition header_location :: "headers \<Rightarrow> jsstring \<Rightarrow> jsstring \<Rightarrow> jsstring \<Rightarrow> error + location" where
  "header_location h countryName regionName cityName =
     and_then (headers_get h countryName) (\<lambda>c.
       and_then (headers_get h regionName) (\<lambda>r.
         and_then (headers_get h cityName) (\<lambda>ci.
           let country = decodeHeader c; region = decodeHeader r; city = decodeHeader ci
           in Inr \<lparr>country = country, region = getRegionCode country region, city = city\<rparr>)))"

definition location_headers :: "headers \<Rightarrow> error + location option" where
  "location_headers h =
     and_then (headers_get h (js ''cf-ipcountry'')) (\<lambda>cf.
       if truthy cf then
         and_then (header_location h (js ''cf-ipcountry'') (js ''cf-region-code'') (js ''cf-ipcity''))
           (\<lambda>l. Inr (Some l))
       else
         and_then (headers_get h (js ''x-vercel-ip-country'')) (\<lambda>vercel.
           if truthy vercel then
             and_then (header_location h (js ''x-vercel-ip-country'') (js ''x-vercel-ip-country-region'')
                         (js ''x-vercel-ip-city''))
               (\<lambda>l. Inr (Some l))
           else Inr None))"

text \<open>The path given to \<^verbatim>\<open>maxmind.open\<close>.\<close>

definition database_path :: "'r geo \<Rightarrow> env \<Rightarrow> jsstring" where
  "database_path g e =
     (case GEOLITE_DB_PATH e of
        None \<Rightarrow> default_path g
      | Some p \<Rightarrow> if p = [] then default_path g else p)"

text \<open>The fields of the returned object on a database hit.\<close>

definition response_location :: "city_response \<Rightarrow> location" where
  "response_location result =
     (let country = (case country_iso_code result of
                       Some c \<Rightarrow> Some c
                     | None \<Rightarrow> registered_country_iso_code result);
          region = (case subdivisions_iso_code result of [] \<Rightarrow> None | s # _ \<Rightarrow> s);
          city = city_names_en result
      in \<lparr>country = country, region = getRegionCode country region, city = city\<rparr>)"

text \<open>\<^verbatim>\<open>ip?.split(':')[0]\<close>.\<close>

definition cleanIp :: "jsstring option \<Rightarrow> jsstring option" where
  "cleanIp ip = (case ip of None \<Rightarrow> None | Some s \<Rightarrow> first_piece 0x3A s)"

text \<open>
  The code after the open: \<^verbatim>\<open>global[MAXMIND].get(cleanIp)\<close> and the returned object.
  Calling \<^verbatim>\<open>get\<close> on an unset global would throw a TypeError.
\<close>

definition lookup_location ::
  "'r geo \<Rightarrow> jsstring option \<Rightarrow> 'r state \<Rightarrow> (error + location option) \<times> 'r state" where
  "lookup_location g ip st =
     (case global_maxmind st of
        None \<Rightarrow> (Inl TypeError, st)
      | Some reader \<Rightarrow>
          (case reader_get g reader (cleanIp ip) of
             Inl err \<Rightarrow> (Inl err, st\<lparr>lookups := lookups st @ [cleanIp ip]\<rparr>)
           | Inr None \<Rightarrow> (Inr None, st\<lparr>lookups := lookups st @ [cleanIp ip]\<rparr>)
           | Inr (Some result) \<Rightarrow>
               (Inr (Some (response_location result)),
                st\<lparr>lookups := lookups st @ [cleanIp ip]\<rparr>)))"

text \<open>
  The database section, run without interruption:
  \<^verbatim>\<open>if (!global[MAXMIND]) { global[MAXMIND] = await maxmind.open(...) }\<close> and the lookup.
\<close>

definition database_lookup ::
  "'r geo \<Rightarrow> env \<Rightarrow> jsstring option \<Rightarrow> 'r state \<Rightarrow> (error + location option) \<times> 'r state" where
  "database_lookup g e ip st =
     (case global_maxmind st of
        Some reader \<Rightarrow> lookup_location g ip st
      | None \<Rightarrow>
          (case maxmind_open g (database_path g e) of
             Inl err \<Rightarrow> (Inl err, st\<lparr>opens := opens st @ [database_path g e]\<rparr>)
           | Inr reader \<Rightarrow>
               lookup_location g ip
                 (st\<lparr>opens := opens st @ [database_path g e], global_maxmind := Some reader\<rparr>)))"

definition getLocation ::
  "'r geo \<Rightarrow> env \<Rightarrow> jsstring option \<Rightarrow> headers \<Rightarrow> bool \<Rightarrow> 'r state \<Rightarrow>
     (error + location option) \<times> 'r state" where
  "getLocation g e ip h hasPayloadIP st =
     (case isLocalhost g ip of
        Inl err \<Rightarrow> (Inl err, st)
      | Inr True \<Rightarrow> (Inr None, st)
      | Inr False \<Rightarrow>
          (case (if \<not> hasPayloadIP \<and> \<not> truthy (SKIP_LOCATION_HEADERS e) then location_headers h
                 else Inr None) of
             Inl err \<Rightarrow> (Inl err, st)
           | Inr (Some l) \<Rightarrow> (Inr (Some l), st)
           | Inr None \<Rightarrow> database_lookup g e ip st))"

subsection \<open>Calls in flight\<close>

text \<open>
  \<^verbatim>\<open>getLocation\<close> is an async function: it runs until an \<^verbatim>\<open>await\<close>, and other
  calls may run before it resumes. A call is suspended at \<^verbatim>\<open>await isLocalhost(ip)\<close>
  (\<open>Called\<close>), suspended at \<^verbatim>\<open>await maxmind.open(...)\<close> (\<open>Opening\<close>), or has returned
  or thrown (\<open>Finished\<close>). \<open>resume\<close> runs one call from its \<^verbatim>\<open>await\<close> to the next
  \<^verbatim>\<open>await\<close> or to its end; \<open>run_schedule\<close> resumes the calls of a list in the order of a
  schedule.
\<close>

record call =
  call_ip :: "jsstring option"
  call_headers :: headers
  call_hasPayloadIP :: bool

datatype task = Called call | Opening call | Finished "error + location option"

definition resume :: "'r geo \<Rightarrow> env \<Rightarrow> task \<Rightarrow> 'r state \<Rightarrow> task \<times> 'r state" where
  "resume g e t st =
     (case t of
        Called a \<Rightarrow>
          (case isLocalhost g (call_ip a) of
             Inl err \<Rightarrow> (Finished (Inl err), st)
           | Inr True \<Rightarrow> (Finished (Inr None), st)
           | Inr False \<Rightarrow>
               (case (if \<not> call_hasPayloadIP a \<and> \<not> truthy (SKIP_LOCATION_HEADERS e)
                      then location_headers (call_headers a) else Inr None) of
                  Inl err \<Rightarrow> (Finished (Inl err), st)
                | Inr (Some l) \<Rightarrow> (Finished (Inr (Some l)), st)
                | Inr None \<Rightarrow>
                    (case global_maxmind st of
                       Some reader \<Rightarrow>
                         (case lookup_location g (call_ip a) st of (r, st') \<Rightarrow> (Finished r, st'))
                     | None \<Rightarrow> (Opening a, st\<lparr>opens := opens st @ [database_path g e]\<rparr>))))
      | Opening a \<Rightarrow>
          (case maxmind_open g (database_path g e) of
             Inl err \<Rightarrow> (Finished (Inl err), st)
           | Inr reader \<Rightarrow>
               (case lookup_location g (call_ip a) (st\<lparr>global_maxmind := Some reader\<rparr>) of
                  (r, st') \<Rightarrow> (Finished r, st')))
      | Finished r \<Rightarrow> (Finished r, st))"

fun run_schedule :: "'r geo \<Rightarrow> env \<Rightarrow> nat list \<Rightarrow> task list \<times> 'r state \<Rightarrow> task list \<times> 'r state" where
  "run_schedule g e [] cfg = cfg"
| "run_schedule g e (i # schedule) (tasks, st) =
     (if i < length tasks then
        (case resume g e (tasks ! i) st of
           (t, st') \<Rightarrow> run_schedule g e schedule (tasks[i := t], st'))
      else run_schedule g e schedule (tasks, st))"

text \<open>Calls made one after the other, each awaited before the next is made.\<close>

fun in_sequence :: "'r geo \<Rightarrow> env \<Rightarrow> call list \<Rightarrow> 'r state \<Rightarrow> 'r state" where
  "in_sequence g e [] st = st"
| "in_sequence g e (a # calls) st =
     in_sequence g e calls
       (snd (getLocation g e (call_ip a) (call_headers a) (call_hasPayloadIP a) st))"

section \<open>Sample configurations\<close>

subsection \<open>Constants and environment\<close>

text \<open>
  Modelled from the spec: \<^verbatim>\<open>./constants\<close> is not among the sources. The spec names
  \<^verbatim>\<open>x-real-ip\<close> and \<^verbatim>\<open>forwarded\<close> as members of the fallback list and uses the
  systems Windows, iOS, Amazon OS and Chrome OS in its device table; the widths are
  sample values. This configuration is used only to evaluate examples.
\<close>

definition sample_constants :: constants where
  "sample_constants =
     \<lparr>DESKTOP_OS = [js ''Windows'', js ''Mac OS'', js ''Linux'', js ''Chrome OS''],
      MOBILE_OS = [js ''iOS'', js ''Android OS'', js ''Amazon OS''],
      DESKTOP_SCREEN_WIDTH = 1920,
      LAPTOP_SCREEN_WIDTH = 1024,
      MOBILE_SCREEN_WIDTH = 479,
      IP_ADDRESS_HEADERS = [js ''x-real-ip'', js ''forwarded'']\<rparr>"

text \<open>An environment with none of the four variables set.\<close>

definition sample_env :: env where
  "sample_env =
     \<lparr>CLIENT_IP_HEADER = None, SKIP_LOCATION_HEADERS = None, GEOLITE_DB_PATH = None,
      IGNORE_IP = None\<rparr>"

text \<open>The double quote, for header values that hold a quoted string.\<close>

definition dquote :: code_unit where
  "dquote = 0x22"

subsection \<open>A sample address library\<close>

text \<open>
  Modelled from the spec: the address library is not among the sources. The spec has
  entries with a slash parsed as CIDR ranges, an address family (v4 or v6) for every
  address, and a match when the address falls within the range. This stand-in reads
  dotted-decimal IPv4 addresses (four parts of one to three digits, each at most 255) and
  IPv6 addresses of eight groups of one to four hex digits, and throws on every other
  string; a range is an address, a slash and a prefix length of at most 32 or 128; an
  address is within a range when its leading prefix-length bits agree. It is used only to
  evaluate examples.
\<close>

datatype address = IPv4 "nat list" | IPv6 "nat list"

fun address_kind :: "address \<Rightarrow> kind" where
  "address_kind (IPv4 _) = ipv4"
| "address_kind (IPv6 _) = ipv6"

definition parse_ipv4 :: "jsstring \<Rightarrow> address option" where
  "parse_ipv4 s =
     (let parts = js_split 0x2E s
      in if length parts = 4 \<and>
            list_all (\<lambda>p. p \<noteq> [] \<and> length p \<le> 3 \<and> list_all is_digit p \<and> radix_value 10 p \<le> 255) parts
         then Some (IPv4 (map (\<lambda>p. nat (radix_value 10 p)) parts))
         else None)"

definition parse_ipv6 :: "jsstring \<Rightarrow> address option" where
  "parse_ipv6 s =
     (let parts = js_split 0x3A s
      in if length parts = 8 \<and>
            list_all (\<lambda>p. p \<noteq> [] \<and> length p \<le> 4 \<and> list_all is_hex_digit p) parts
         then Some (IPv6 (map (\<lambda>p. nat (radix_value 16 p)) parts))
         else None)"

definition sample_parse :: "jsstring \<Rightarrow> error + address" where
  "sample_parse s =
     (case parse_ipv6 s of
        Some a \<Rightarrow> Inr a
      | None \<Rightarrow> (case parse_ipv4 s of Some a \<Rightarrow> Inr a | None \<Rightarrow> Inl ParseError))"

definition sample_parseCIDR :: "jsstring \<Rightarrow> error + (address \<times> nat)" where
  "sample_parseCIDR s =
     (let bits = rev (takeWhile (\<lambda>c. c \<noteq> 0x2F) (rev s));
          addr = take (length s - length bits - 1) s
      in if length bits < length s \<and> bits \<noteq> [] \<and> list_all is_digit bits then
           (case parse_ipv6 addr of
              Some a \<Rightarrow> if radix_value 10 bits \<le> 128 then Inr (a, nat (radix_value 10 bits)) else Inl ParseError
            | None \<Rightarrow>
                (case parse_ipv4 addr of
                   Some a \<Rightarrow> if radix_value 10 bits \<le> 32 then Inr (a, nat (radix_value 10 bits)) else Inl ParseError
                 | None \<Rightarrow> Inl ParseError))
         else Inl ParseError)"

fun match_parts :: "nat list \<Rightarrow> nat list \<Rightarrow> nat \<Rightarrow> nat \<Rightarrow> bool" where
  "match_parts (x # xs) (y # ys) partSize bits =
     (if bits = 0 then True
      else x div 2 ^ (partSize - bits) = y div 2 ^ (partSize - bits) \<and>
           match_parts xs ys partSize (bits - partSize))"
| "match_parts _ _ partSize bits = (bits = 0)"

fun sample_match :: "address \<Rightarrow> address \<times> nat \<Rightarrow> error + bool" where
  "sample_match (IPv4 xs) (IPv4 ys, bits) = Inr (match_parts xs ys 8 bits)"
| "sample_match (IPv6 xs) (IPv6 ys, bits) = Inr (match_parts xs ys 16 bits)"
| "sample_match _ _ = Inl TypeError"

definition sample_ipaddr :: "address ipaddr" where
  "sample_ipaddr =
     \<lparr>parse = sample_parse, parseCIDR = sample_parseCIDR, kind_of = address_kind,
      match_range = sample_match\<rparr>"

subsection \<open>A sample geo database\<close>

text \<open>
  Modelled from the spec: the locality classifier and the database reader are external
  and not among the sources. The spec has the loopback addresses \<^verbatim>\<open>127.0.0.1\<close> and
  \<^verbatim>\<open>::1\<close> local; the stand-in reader is a table from address strings to responses, and
  opening any path succeeds. It is used only to evaluate examples.
\<close>

type_synonym sample_reader = "(jsstring \<times> city_response) list"

definition sample_database :: sample_reader where
  "sample_database =
     [(js ''2001:db8::1'',
       \<lparr>country_iso_code = Some (js ''US''), registered_country_iso_code = None,
        subdivisions_iso_code = [Some (js ''CA'')], city_names_en = Some (js ''San Francisco'')\<rparr>),
      (js ''203.0.113.9'',
       \<lparr>country_iso_code = None, registered_country_iso_code = Some (js ''DE''),
        subdivisions_iso_code = [Some (js ''DE-BE'')], city_names_en = Some (js ''Berlin'')\<rparr>)]"

definition sample_geo :: "sample_reader geo" where
  "sample_geo =
     \<lparr>isLocalhost = (\<lambda>ip. Inr (ip = Some (js ''127.0.0.1'') \<or> ip = Some (js ''::1''))),
      maxmind_open = (\<lambda>path. Inr sample_database),
      reader_get = (\<lambda>reader key. case key of None \<Rightarrow> Inl TypeError | Some k \<Rightarrow> Inr (map_of reader k)),
      default_path = js ''/app/geo/GeoLite2-City.mmdb''\<rparr>"

definition initial_state :: "'r state" where
  "initial_state = \<lparr>global_maxmind = None, opens = [], lookups = []\<rparr>"

text \<open>A call with the given IP, no headers and no payload IP.\<close>

definition sample_call :: "string \<Rightarrow> call" where
  "sample_call ip = \<lparr>call_ip = Some (js ip), call_headers = Map.empty, call_hasPayloadIP = False\<rparr>"

section \<open>Properties\<close>

subsection \<open>Strings and headers\<close>

lemmas header_name_defs = is_header_name_def is_tchar_def is_alpha_upper_def is_alpha_lower_def
  is_digit_def ascii_lower_def js_def

lemma headers_get_cf:
  "headers_get h (js ''cf-connecting-ip'') = Inr (h (js ''cf-connecting-ip''))"
  by (simp add: headers_get_def header_name_defs)

lemma headers_get_xff:
  "headers_get h (js ''x-forwarded-for'') = Inr (h (js ''x-forwarded-for''))"
  by (simp add: headers_get_def header_name_defs)

lemma js_split_not_Nil: "js_split sep s \<noteq> []"
  by (induction s) (auto split: list.splits)

text \<open>The first piece of a split is the part of the string before the first separator.\<close>

lemma first_piece_takeWhile: "first_piece sep s = Some (takeWhile (\<lambda>c. c \<noteq> sep) s)"
proof -
  have "\<exists>ps. js_split sep s = takeWhile (\<lambda>c. c \<noteq> sep) s # ps"
    by (induction s) (auto split: list.splits)
  then show ?thesis by (auto simp: first_piece_def)
qed

subsection \<open>getIpAddress\<close>

text \<open>The loop returns the value of the first fallback header that is not empty.\<close>

lemma fallback_headers_find:
  "list_all is_header_name names \<Longrightarrow> fallback_headers h names = Inr (first_fallback h names)"
proof (induction names)
  case Nil
  then show ?case by (simp add: first_fallback_def)
next
  case (Cons n names)
  then have v: "headers_get h n = Inr (h (map ascii_lower n))"
    and r: "fallback_headers h names = Inr (first_fallback h names)"
    by (simp_all add: headers_get_def)
  show ?case
  proof (cases "h (map ascii_lower n)")
    case None
    then show ?thesis using v r by (simp add: first_fallback_def)
  next
    case (Some ip)
    then show ?thesis using v r
      by (cases "forwarded_match ip") (simp_all add: first_fallback_def fallback_value_def)
  qed
qed

lemma custom_lookup:
  "custom_header_ok e \<Longrightarrow>
   (case CLIENT_IP_HEADER e of
      None \<Rightarrow> Inr None
    | Some customHeader \<Rightarrow> if customHeader = [] then Inr None else headers_get h customHeader)
   = Inr (custom_value e h)"
  by (auto simp: custom_header_ok_def custom_value_def headers_get_def split: option.splits)

lemma getIpAddress_unfold:
  assumes "custom_header_ok e"
  shows "getIpAddress c e h =
     (if truthy (h (js ''cf-connecting-ip'')) then Inr (h (js ''cf-connecting-ip''))
      else if truthy (custom_value e h) then Inr (custom_value e h)
      else if truthy (h (js ''x-forwarded-for''))
        then Inr (map_option (\<lambda>v. trim (takeWhile (\<lambda>x. x \<noteq> 0x2C) v)) (h (js ''x-forwarded-for'')))
      else fallback_headers h (IP_ADDRESS_HEADERS c))"
  unfolding getIpAddress_def headers_get_cf headers_get_xff custom_lookup [OF assms] and_then_def
  by (simp add: first_piece_takeWhile split: option.splits)

text \<open>
  C5 (as amended). A header counts as present when its value is not empty. When the custom
  header name, if set and not empty, and the names of the fallback list are HTTP tokens,
  \<^verbatim>\<open>getIpAddress\<close> applies a first-match-wins precedence and throws nothing: the value
  of \<^verbatim>\<open>cf-connecting-ip\<close> if it is not empty; else the value of the configured custom
  header if not empty; else, when \<^verbatim>\<open>x-forwarded-for\<close> is not empty, the trimmed part of
  its value before the first comma; else the value of the first non-empty header of the
  fallback list (for \<^verbatim>\<open>forwarded\<close>, its \<^verbatim>\<open>for=\<close> group when the pattern matches);
  else \<^verbatim>\<open>null\<close>. Whenever \<^verbatim>\<open>cf-connecting-ip\<close> is not empty the result is its value,
  whatever \<^verbatim>\<open>x-forwarded-for\<close> holds; and for a header set with only
  \<^verbatim>\<open>x-forwarded-for: 1.2.3.4, 5.6.7.8\<close> and no custom header configured the result is
  \<^verbatim>\<open>1.2.3.4\<close>.
\<close>

theorem getIpAddress_precedence:
  "(custom_header_ok e \<and> list_all is_header_name (IP_ADDRESS_HEADERS c) \<longrightarrow>
      getIpAddress c e h =
        Inr (if truthy (h (js ''cf-connecting-ip'')) then h (js ''cf-connecting-ip'')
             else if truthy (custom_value e h) then custom_value e h
             else if truthy (h (js ''x-forwarded-for''))
               then map_option (\<lambda>v. trim (takeWhile (\<lambda>x. x \<noteq> 0x2C) v)) (h (js ''x-forwarded-for''))
             else first_fallback h (IP_ADDRESS_HEADERS c))) \<and>
   (truthy (h (js ''cf-connecting-ip'')) \<longrightarrow> getIpAddress c e h = Inr (h (js ''cf-connecting-ip''))) \<and>
   (CLIENT_IP_HEADER e = None \<longrightarrow>
      getIpAddress c e [js ''x-forwarded-for'' \<mapsto> js ''1.2.3.4, 5.6.7.8''] = Inr (Some (js ''1.2.3.4'')))"
proof (intro conjI impI)
  assume "custom_header_ok e \<and> list_all is_header_name (IP_ADDRESS_HEADERS c)"
  then show "getIpAddress c e h =
        Inr (if truthy (h (js ''cf-connecting-ip'')) then h (js ''cf-connecting-ip'')
             else if truthy (custom_value e h) then custom_value e h
             else if truthy (h (js ''x-forwarded-for''))
               then map_option (\<lambda>v. trim (takeWhile (\<lambda>x. x \<noteq> 0x2C) v)) (h (js ''x-forwarded-for''))
             else first_fallback h (IP_ADDRESS_HEADERS c))"
    by (simp add: getIpAddress_unfold fallback_headers_find)
next
  assume "truthy (h (js ''cf-connecting-ip''))"
  then show "getIpAddress c e h = Inr (h (js ''cf-connecting-ip''))"
    by (simp add: getIpAddress_def headers_get_cf and_then_def)
next
  assume unset: "CLIENT_IP_HEADER e = None"
  let ?h = "[js ''x-forwarded-for'' \<mapsto> js ''1.2.3.4, 5.6.7.8'']"
  have ok: "custom_header_ok e" and cv: "custom_value e ?h = None"
    using unset by (simp_all add: custom_header_ok_def custom_value_def)
  have cf: "?h (js ''cf-connecting-ip'') = None" by (simp add: js_def)
  have xff: "?h (js ''x-forwarded-for'') = Some (js ''1.2.3.4, 5.6.7.8'')" by simp
  have ne: "js ''1.2.3.4, 5.6.7.8'' \<noteq> []" by (simp add: js_def)
  have t: "trim (takeWhile (\<lambda>x. x \<noteq> 0x2C) (js ''1.2.3.4, 5.6.7.8'')) = js ''1.2.3.4''"
    by (simp add: js_def trim_def is_white_space_def)
  show "getIpAddress c e ?h = Inr (Some (js ''1.2.3.4''))"
    unfolding getIpAddress_unfold [OF ok] cv cf xff using ne t by simp
qed

theorem getIpAddress_precedence_witness:
  "custom_header_ok (sample_env\<lparr>CLIENT_IP_HEADER := Some (js ''X-Client-IP'')\<rparr>) \<and>
   list_all is_header_name (IP_ADDRESS_HEADERS sample_constants) \<and>
   truthy ([js ''cf-connecting-ip'' \<mapsto> js ''9.9.9.9'', js ''x-forwarded-for'' \<mapsto> js ''1.2.3.4'']
             (js ''cf-connecting-ip'')) \<and>
   getIpAddress sample_constants (sample_env\<lparr>CLIENT_IP_HEADER := Some (js ''X-Client-IP'')\<rparr>)
     [js ''cf-connecting-ip'' \<mapsto> js ''9.9.9.9'', js ''x-forwarded-for'' \<mapsto> js ''1.2.3.4'']
     = Inr (Some (js ''9.9.9.9'')) \<and>
   getIpAddress sample_constants (sample_env\<lparr>CLIENT_IP_HEADER := Some (js ''X-Client-IP'')\<rparr>)
     [js ''x-client-ip'' \<mapsto> js ''7.7.7.7'', js ''x-forwarded-for'' \<mapsto> js ''1.2.3.4'']
     = Inr (Some (js ''7.7.7.7'')) \<and>
   getIpAddress sample_constants (sample_env\<lparr>CLIENT_IP_HEADER := Some (js ''X-Client-IP'')\<rparr>)
     [js ''x-real-ip'' \<mapsto> js ''8.8.8.8'']
     = Inr (Some (js ''8.8.8.8'')) \<and>
   getIpAddress sample_constants (sample_env\<lparr>CLIENT_IP_HEADER := Some (js ''X-Client-IP'')\<rparr>)
     Map.empty = Inr None \<and>
   CLIENT_IP_HEADER sample_env = None \<and>
   getIpAddress sample_constants sample_env [js ''x-forwarded-for'' \<mapsto> js ''1.2.3.4, 5.6.7.8'']
     = Inr (Some (js ''1.2.3.4''))"
  using getIpAddress_precedence [of "sample_env\<lparr>CLIENT_IP_HEADER := Some (js ''X-Client-IP'')\<rparr>"
          sample_constants
          "[js ''cf-connecting-ip'' \<mapsto> js ''9.9.9.9'', js ''x-forwarded-for'' \<mapsto> js ''1.2.3.4'']"]
        getIpAddress_precedence [of "sample_env\<lparr>CLIENT_IP_HEADER := Some (js ''X-Client-IP'')\<rparr>"
          sample_constants
          "[js ''x-client-ip'' \<mapsto> js ''7.7.7.7'', js ''x-forwarded-for'' \<mapsto> js ''1.2.3.4'']"]
        getIpAddress_precedence [of "sample_env\<lparr>CLIENT_IP_HEADER := Some (js ''X-Client-IP'')\<rparr>"
          sample_constants "[js ''x-real-ip'' \<mapsto> js ''8.8.8.8'']"]
        getIpAddress_precedence [of "sample_env\<lparr>CLIENT_IP_HEADER := Some (js ''X-Client-IP'')\<rparr>"
          sample_constants "Map.empty"]
        getIpAddress_precedence [of sample_env sample_constants Map.empty]
  by (simp add: custom_header_ok_def custom_value_def first_fallback_def fallback_value_def
        sample_env_def sample_constants_def header_name_defs)

text \<open>
  C5 as stated fails: a header that is present with an empty value is passed over. With
  an empty \<^verbatim>\<open>cf-connecting-ip\<close> and \<^verbatim>\<open>x-forwarded-for: 1.2.3.4\<close> the result is
  \<^verbatim>\<open>1.2.3.4\<close>, not the value of \<^verbatim>\<open>cf-connecting-ip\<close>. And when the configured
  custom header is \<^verbatim>\<open>x-forwarded-for\<close> itself, a header set with only
  \<^verbatim>\<open>x-forwarded-for: 1.2.3.4, 5.6.7.8\<close> gives the whole value, not its first entry.
\<close>

theorem getIpAddress_empty_header_counterexample:
  "getIpAddress sample_constants sample_env
     [js ''cf-connecting-ip'' \<mapsto> [], js ''x-forwarded-for'' \<mapsto> js ''1.2.3.4'']
     = Inr (Some (js ''1.2.3.4'')) \<and>
   [js ''cf-connecting-ip'' \<mapsto> [], js ''x-forwarded-for'' \<mapsto> js ''1.2.3.4'']
     (js ''cf-connecting-ip'') = Some [] \<and>
   getIpAddress sample_constants sample_env
     [js ''cf-connecting-ip'' \<mapsto> [], js ''x-forwarded-for'' \<mapsto> js ''1.2.3.4'']
     \<noteq> Inr (Some []) \<and>
   getIpAddress sample_constants (sample_env\<lparr>CLIENT_IP_HEADER := Some (js ''x-forwarded-for'')\<rparr>)
     [js ''x-forwarded-for'' \<mapsto> js ''1.2.3.4, 5.6.7.8'']
     = Inr (Some (js ''1.2.3.4, 5.6.7.8'')) \<and>
   getIpAddress sample_constants (sample_env\<lparr>CLIENT_IP_HEADER := Some (js ''x-forwarded-for'')\<rparr>)
     [js ''x-forwarded-for'' \<mapsto> js ''1.2.3.4, 5.6.7.8'']
     \<noteq> Inr (Some (js ''1.2.3.4''))"
  by (simp add: getIpAddress_def and_then_def headers_get_def header_name_defs sample_env_def
        first_piece_def trim_def is_white_space_def)

lemma takeWhile_run:
  "list_all P run \<Longrightarrow> (case rest of [] \<Rightarrow> True | r # _ \<Rightarrow> \<not> P r) \<Longrightarrow>
   takeWhile P (run @ rest) = run \<and> dropWhile P (run @ rest) = rest"
  by (induction run) (auto split: list.splits)

lemma forwarded_match_here_bracketed:
  assumes "run \<noteq> []" "list_all is_for_char run"
  shows "forwarded_match_here (js ''for=['' @ run @ js '']'' @ rest) = Some (js ''['' @ run @ js '']'')"
proof -
  have p: "strip_prefix (js ''for='') (js ''for=['' @ run @ js '']'' @ rest) = Some (0x5B # run @ 0x5D # rest)"
    by (simp add: strip_prefix_def js_def)
  have "\<not> is_for_char 0x5D" by (simp add: is_for_char_def is_digit_def)
  then have t: "takeWhile is_for_char (run @ 0x5D # rest) = run \<and> dropWhile is_for_char (run @ 0x5D # rest) = 0x5D # rest"
    using takeWhile_run [OF assms(2), of "0x5D # rest"] by simp
  show ?thesis
    unfolding forwarded_match_here_def p using assms(1) t by (simp add: js_def)
qed

lemma forwarded_match_here_plain:
  assumes "run \<noteq> []" "list_all is_for_char run"
    "case rest of [] \<Rightarrow> True | r # _ \<Rightarrow> \<not> is_for_char r \<and> r \<noteq> 0x5D"
  shows "forwarded_match_here (js ''for='' @ run @ rest) = Some run"
proof -
  have p: "strip_prefix (js ''for='') (js ''for='' @ run @ rest) = Some (run @ rest)"
    by (simp add: strip_prefix_def js_def)
  obtain x xs where run: "run = x # xs" using assms(1) by (cases run) auto
  then have x: "is_for_char x" using assms(2) by simp
  then have nb: "x \<noteq> 0x5B" by (auto simp: is_for_char_def is_digit_def)
  have "case rest of [] \<Rightarrow> True | r # _ \<Rightarrow> \<not> is_for_char r" using assms(3) by (auto split: list.splits)
  then have t: "takeWhile is_for_char (run @ rest) = run \<and> dropWhile is_for_char (run @ rest) = rest"
    using takeWhile_run [OF assms(2)] by simp
  show ?thesis
    unfolding forwarded_match_here_def p using assms(1,3) t nb run
    by (auto split: list.splits)
qed

lemma forwarded_match_at_head:
  "forwarded_match_here s = Some g \<Longrightarrow> forwarded_match s = Some g"
  by (cases s) (simp_all add: forwarded_match_here_def strip_prefix_def js_def)

lemma fallback_headers_skip:
  "\<forall>n \<in> set pre. is_header_name n \<and> \<not> truthy (h (map ascii_lower n)) \<Longrightarrow>
   fallback_headers h (pre @ rest) = fallback_headers h rest"
  by (induction pre) (auto simp: headers_get_def split: option.splits)

lemma headers_get_forwarded:
  "headers_get h (js ''forwarded'') = Inr (h (js ''forwarded''))"
  by (simp add: headers_get_def header_name_defs)

lemma fallback_headers_forwarded:
  "h (js ''forwarded'') = Some v \<Longrightarrow> v \<noteq> [] \<Longrightarrow>
   fallback_headers h (js ''forwarded'' # post) =
     Inr (Some (case forwarded_match v of Some g \<Rightarrow> g | None \<Rightarrow> v))"
  by (simp add: headers_get_forwarded split: option.splits)

text \<open>
  C1 (as amended). When \<^verbatim>\<open>cf-connecting-ip\<close>, the custom header and
  \<^verbatim>\<open>x-forwarded-for\<close> are absent and the loop reaches \<^verbatim>\<open>forwarded\<close> with a
  non-empty value, \<^verbatim>\<open>getIpAddress\<close> returns the first group of the leftmost match
  of the pattern, and the raw value when the pattern does not match. The group keeps its
  brackets: a value that starts with \<^verbatim>\<open>for=[\<close>, a run of address characters and
  \<^verbatim>\<open>]\<close> gives the run between its two brackets, and an unbracketed run gives the run.
\<close>

theorem getIpAddress_forwarded_group:
  assumes "\<not> truthy (h (js ''cf-connecting-ip''))"
    and "custom_header_ok e" and "\<not> truthy (custom_value e h)"
    and "\<not> truthy (h (js ''x-forwarded-for''))"
    and "IP_ADDRESS_HEADERS c = pre @ js ''forwarded'' # post"
    and "\<forall>n \<in> set pre. is_header_name n \<and> \<not> truthy (h (map ascii_lower n))"
    and "h (js ''forwarded'') = Some v" and "v \<noteq> []"
  shows "getIpAddress c e h = Inr (Some (case forwarded_match v of Some g \<Rightarrow> g | None \<Rightarrow> v)) \<and>
    (\<forall>run rest. v = js ''for=['' @ run @ js '']'' @ rest \<and> run \<noteq> [] \<and> list_all is_for_char run \<longrightarrow>
       getIpAddress c e h = Inr (Some (js ''['' @ run @ js '']''))) \<and>
    (\<forall>run rest. v = js ''for='' @ run @ rest \<and> run \<noteq> [] \<and> list_all is_for_char run \<and>
         (case rest of [] \<Rightarrow> True | r # _ \<Rightarrow> \<not> is_for_char r \<and> r \<noteq> 0x5D) \<longrightarrow>
       getIpAddress c e h = Inr (Some run))"
proof -
  have g: "getIpAddress c e h = Inr (Some (case forwarded_match v of Some g \<Rightarrow> g | None \<Rightarrow> v))"
    using assms
    by (simp add: getIpAddress_unfold fallback_headers_skip fallback_headers_forwarded
          del: fallback_headers.simps)
  show ?thesis
    using g forwarded_match_at_head [OF forwarded_match_here_bracketed]
      forwarded_match_at_head [OF forwarded_match_here_plain]
    by auto
qed

theorem getIpAddress_forwarded_group_witness:
  "getIpAddress sample_constants sample_env [js ''forwarded'' \<mapsto> js ''for=[2001:db8::1];proto=https'']
     = Inr (Some (js ''[2001:db8::1]'')) \<and>
   getIpAddress sample_constants sample_env [js ''forwarded'' \<mapsto> js ''for=192.0.2.60;proto=http'']
     = Inr (Some (js ''192.0.2.60''))"
proof -
  let ?v1 = "js ''for=[2001:db8::1];proto=https''"
  let ?v2 = "js ''for=192.0.2.60;proto=http''"
  let ?h1 = "[js ''forwarded'' \<mapsto> ?v1]"
  let ?h2 = "[js ''forwarded'' \<mapsto> ?v2]"
  have pre: "IP_ADDRESS_HEADERS sample_constants = [js ''x-real-ip''] @ js ''forwarded'' # []"
    by (simp add: sample_constants_def)
  have ok: "custom_header_ok sample_env" by (simp add: custom_header_ok_def sample_env_def)
  have cv: "\<not> truthy (custom_value sample_env ?h1)" "\<not> truthy (custom_value sample_env ?h2)"
    by (simp_all add: custom_value_def sample_env_def)
  have cf: "\<not> truthy (?h1 (js ''cf-connecting-ip''))" "\<not> truthy (?h2 (js ''cf-connecting-ip''))"
    by (simp_all add: js_def)
  have xff: "\<not> truthy (?h1 (js ''x-forwarded-for''))" "\<not> truthy (?h2 (js ''x-forwarded-for''))"
    by (simp_all add: js_def)
  have skip: "\<forall>n \<in> set [js ''x-real-ip'']. is_header_name n \<and> \<not> truthy (?h1 (map ascii_lower n))"
    "\<forall>n \<in> set [js ''x-real-ip'']. is_header_name n \<and> \<not> truthy (?h2 (map ascii_lower n))"
    by (simp_all add: header_name_defs)
  have fw: "?h1 (js ''forwarded'') = Some ?v1" "?h2 (js ''forwarded'') = Some ?v2"
    by simp_all
  have ne: "?v1 \<noteq> []" "?v2 \<noteq> []" by (simp_all add: js_def)
  have a: "?v1 = js ''for=['' @ js ''2001:db8::1'' @ js '']'' @ js '';proto=https'' \<and>
      js ''2001:db8::1'' \<noteq> [] \<and> list_all is_for_char (js ''2001:db8::1'')"
    and b: "?v2 = js ''for='' @ js ''192.0.2.60'' @ js '';proto=http'' \<and>
      js ''192.0.2.60'' \<noteq> [] \<and> list_all is_for_char (js ''192.0.2.60'') \<and>
      (case js '';proto=http'' of [] \<Rightarrow> True | r # _ \<Rightarrow> \<not> is_for_char r \<and> r \<noteq> 0x5D)"
    by (simp_all add: js_def is_for_char_def is_digit_def)
  have 1: "getIpAddress sample_constants sample_env ?h1 = Inr (Some (js ''['' @ js ''2001:db8::1'' @ js '']''))"
    using getIpAddress_forwarded_group [OF cf(1) ok cv(1) xff(1) pre skip(1) fw(1) ne(1)] a
    by blast
  have 2: "getIpAddress sample_constants sample_env ?h2 = Inr (Some (js ''192.0.2.60''))"
    using getIpAddress_forwarded_group [OF cf(2) ok cv(2) xff(2) pre skip(2) fw(2) ne(2)] b
    by blast
  have "js ''['' @ js ''2001:db8::1'' @ js '']'' = js ''[2001:db8::1]''" by (simp add: js_def)
  then show ?thesis using 1 2 by simp
qed

text \<open>
  C1 as stated fails: the pattern does not match a quoted \<^verbatim>\<open>for=\<close> parameter, so the
  whole header value is returned, and on an unquoted one the brackets stay.
\<close>

theorem getIpAddress_forwarded_counterexample:
  "getIpAddress sample_constants sample_env
     [js ''forwarded'' \<mapsto> js ''for='' @ [dquote] @ js ''[2001:db8::1]'' @ [dquote] @ js '';proto=https'']
     = Inr (Some (js ''for='' @ [dquote] @ js ''[2001:db8::1]'' @ [dquote] @ js '';proto=https'')) \<and>
   getIpAddress sample_constants sample_env
     [js ''forwarded'' \<mapsto> js ''for='' @ [dquote] @ js ''[2001:db8::1]'' @ [dquote] @ js '';proto=https'']
     \<noteq> Inr (Some (js ''2001:db8::1'')) \<and>
   getIpAddress sample_constants sample_env [js ''forwarded'' \<mapsto> js ''for=[2001:db8::1];proto=https'']
     = Inr (Some (js ''[2001:db8::1]'')) \<and>
   getIpAddress sample_constants sample_env [js ''forwarded'' \<mapsto> js ''for=[2001:db8::1];proto=https'']
     \<noteq> Inr (Some (js ''2001:db8::1''))"
  by (simp add: getIpAddress_def and_then_def headers_get_def header_name_defs sample_constants_def
        sample_env_def forwarded_match_here_def strip_prefix_def is_for_char_def dquote_def)

text \<open>
  C9. When neither \<^verbatim>\<open>cf-connecting-ip\<close> nor the custom header matched and
  \<^verbatim>\<open>x-forwarded-for\<close> has a non-empty value, \<^verbatim>\<open>getIpAddress\<close> returns the trimmed
  part before the first comma, also when that is the empty string (the value
  \<^verbatim>\<open>, 5.6.7.8\<close> gives the empty string), and the result does not depend on the fallback
  list, which is not read.
\<close>

theorem getIpAddress_x_forwarded_for:
  assumes "\<not> truthy (h (js ''cf-connecting-ip''))"
    and "custom_header_ok e" and "\<not> truthy (custom_value e h)"
    and "h (js ''x-forwarded-for'') = Some v" and "v \<noteq> []"
  shows "getIpAddress c e h = Inr (Some (trim (takeWhile (\<lambda>x. x \<noteq> 0x2C) v))) \<and>
    (\<forall>names. getIpAddress (c\<lparr>IP_ADDRESS_HEADERS := names\<rparr>) e h = getIpAddress c e h) \<and>
    (v = js '', 5.6.7.8'' \<longrightarrow> getIpAddress c e h = Inr (Some []))"
proof -
  have g: "\<And>c. getIpAddress c e h = Inr (Some (trim (takeWhile (\<lambda>x. x \<noteq> 0x2C) v)))"
    using assms by (simp add: getIpAddress_unfold)
  have "trim (takeWhile (\<lambda>x. x \<noteq> 0x2C) (js '', 5.6.7.8'')) = []"
    by (simp add: js_def trim_def)
  then show ?thesis using g by simp
qed

theorem getIpAddress_x_forwarded_for_witness:
  "getIpAddress sample_constants sample_env
     [js ''x-forwarded-for'' \<mapsto> js '', 5.6.7.8'', js ''x-real-ip'' \<mapsto> js ''8.8.8.8'']
     = Inr (Some []) \<and>
   getIpAddress (sample_constants\<lparr>IP_ADDRESS_HEADERS := [js ''not a token'']\<rparr>) sample_env
     [js ''x-forwarded-for'' \<mapsto> js '', 5.6.7.8'', js ''x-real-ip'' \<mapsto> js ''8.8.8.8'']
     = Inr (Some [])"
proof -
  let ?h = "[js ''x-forwarded-for'' \<mapsto> js '', 5.6.7.8'', js ''x-real-ip'' \<mapsto> js ''8.8.8.8'']"
  have cf: "\<not> truthy (?h (js ''cf-connecting-ip''))" by (simp add: js_def)
  have ok: "custom_header_ok sample_env" by (simp add: custom_header_ok_def sample_env_def)
  have cv: "\<not> truthy (custom_value sample_env ?h)" by (simp add: custom_value_def sample_env_def)
  have xff: "?h (js ''x-forwarded-for'') = Some (js '', 5.6.7.8'')" by (simp add: js_def)
  have ne: "js '', 5.6.7.8'' \<noteq> []" by (simp add: js_def)
  note t = getIpAddress_x_forwarded_for [OF cf ok cv xff ne, of sample_constants]
  have 1: "getIpAddress sample_constants sample_env ?h = Inr (Some [])"
    using t by blast
  have 2: "getIpAddress (sample_constants\<lparr>IP_ADDRESS_HEADERS := [js ''not a token'']\<rparr>) sample_env ?h
      = getIpAddress sample_constants sample_env ?h"
    using t by blast
  show ?thesis using 1 2 by (simp only: simp_thms)
qed

subsection \<open>getDevice\<close>

lemmas number_defs = to_number_def js_def trim_def is_white_space_def non_decimal_def
  unsigned_decimal_def is_digit_def exponent_part_def radix_value_def digit_value_def
  digits_opt_def scale10_def round_ratio_def bit_length.simps pow2_def round_half_even_def Let_def

lemma screen_width_takeWhile: "screen_width s = to_number (takeWhile (\<lambda>x. x \<noteq> 0x78) s)"
  by (simp add: screen_width_def first_piece_takeWhile)

lemma width_1920: "to_number (takeWhile (\<lambda>x. x \<noteq> 0x78) (js ''1920x1080'')) = Finite 1920"
  by (simp add: number_defs)

lemma width_375: "to_number (takeWhile (\<lambda>x. x \<noteq> 0x78) (js ''375x667'')) = Finite 375"
  by (simp add: number_defs)

lemma width_1366: "to_number (takeWhile (\<lambda>x. x \<noteq> 0x78) (js ''1366x768'')) = Finite 1366"
  by (simp add: number_defs)

lemma width_nan: "to_number (takeWhile (\<lambda>x. x \<noteq> 0x78) (js ''widex600'')) = NaN"
  by (simp add: number_defs)

lemma getDevice_unfold:
  "s \<noteq> [] \<Longrightarrow> getDevice c (Some s) os =
     (let width = to_number (takeWhile (\<lambda>x. x \<noteq> 0x78) s)
      in if os \<in> set (DESKTOP_OS c) then
           (if os = js ''Chrome OS'' \<or> num_lt width (DESKTOP_SCREEN_WIDTH c) then Some laptop
            else Some desktop)
         else if os \<in> set (MOBILE_OS c) then
           (if os = js ''Amazon OS'' \<or> num_gt width (MOBILE_SCREEN_WIDTH c) then Some tablet
            else Some mobile)
         else if num_ge width (DESKTOP_SCREEN_WIDTH c) then Some desktop
         else if num_ge width (LAPTOP_SCREEN_WIDTH c) then Some laptop
         else if num_ge width (MOBILE_SCREEN_WIDTH c) then Some tablet
         else Some mobile)"
  by (simp add: getDevice_def screen_width_takeWhile)

text \<open>
  C7. \<^verbatim>\<open>getDevice\<close> returns nothing for an absent or empty screen. Otherwise the width
  is the number value of the part of the screen string before the first \<^verbatim>\<open>x\<close>, and:
  for an os in the desktop set the device is laptop iff the os is Chrome OS or the width is
  below the desktop threshold, else desktop; for an os in the mobile set (and not in the
  desktop set) it is tablet iff the os is Amazon OS or the width exceeds the mobile
  threshold, else mobile; for any other os it is desktop, laptop, tablet or mobile by the
  first of the three thresholds that the width reaches. The four rows of the device table
  hold when Windows is a desktop system (or at least not a mobile one) and the desktop
  threshold is at most 1920, iOS is a mobile system and the mobile threshold is at least
  375, Amazon OS is a mobile system, and Chrome OS is a desktop system.
\<close>

theorem getDevice_classification:
  "getDevice c None os = None \<and> getDevice c (Some []) os = None \<and>
   (s \<noteq> [] \<longrightarrow>
      (os \<in> set (DESKTOP_OS c) \<longrightarrow>
         getDevice c (Some s) os =
           Some (if os = js ''Chrome OS'' \<or>
                    num_lt (to_number (takeWhile (\<lambda>x. x \<noteq> 0x78) s)) (DESKTOP_SCREEN_WIDTH c)
                 then laptop else desktop)) \<and>
      (os \<notin> set (DESKTOP_OS c) \<and> os \<in> set (MOBILE_OS c) \<longrightarrow>
         getDevice c (Some s) os =
           Some (if os = js ''Amazon OS'' \<or>
                    num_gt (to_number (takeWhile (\<lambda>x. x \<noteq> 0x78) s)) (MOBILE_SCREEN_WIDTH c)
                 then tablet else mobile)) \<and>
      (os \<notin> set (DESKTOP_OS c) \<and> os \<notin> set (MOBILE_OS c) \<longrightarrow>
         getDevice c (Some s) os =
           Some (if num_ge (to_number (takeWhile (\<lambda>x. x \<noteq> 0x78) s)) (DESKTOP_SCREEN_WIDTH c) then desktop
                 else if num_ge (to_number (takeWhile (\<lambda>x. x \<noteq> 0x78) s)) (LAPTOP_SCREEN_WIDTH c) then laptop
                 else if num_ge (to_number (takeWhile (\<lambda>x. x \<noteq> 0x78) s)) (MOBILE_SCREEN_WIDTH c) then tablet
                 else mobile))) \<and>
   ((js ''Windows'' \<in> set (DESKTOP_OS c) \<or> js ''Windows'' \<notin> set (MOBILE_OS c)) \<and>
      DESKTOP_SCREEN_WIDTH c \<le> 1920 \<longrightarrow>
      getDevice c (Some (js ''1920x1080'')) (js ''Windows'') = Some desktop) \<and>
   (js ''iOS'' \<notin> set (DESKTOP_OS c) \<and> js ''iOS'' \<in> set (MOBILE_OS c) \<and> 375 \<le> MOBILE_SCREEN_WIDTH c \<longrightarrow>
      getDevice c (Some (js ''375x667'')) (js ''iOS'') = Some mobile) \<and>
   (js ''Amazon OS'' \<notin> set (DESKTOP_OS c) \<and> js ''Amazon OS'' \<in> set (MOBILE_OS c) \<longrightarrow>
      getDevice c (Some (js ''1024x768'')) (js ''Amazon OS'') = Some tablet) \<and>
   (js ''Chrome OS'' \<in> set (DESKTOP_OS c) \<longrightarrow>
      getDevice c (Some (js ''800x600'')) (js ''Chrome OS'') = Some laptop)"
proof -
  have ne: "js ''1920x1080'' \<noteq> []" "js ''375x667'' \<noteq> []" "js ''1024x768'' \<noteq> []" "js ''800x600'' \<noteq> []"
    by (simp_all add: js_def)
  have os: "js ''Windows'' \<noteq> js ''Chrome OS''" "js ''iOS'' \<noteq> js ''Amazon OS''"
    by (simp_all add: js_def)
  have 1: "getDevice c None os = None \<and> getDevice c (Some []) os = None"
    by (simp add: getDevice_def)
  have 2: "s \<noteq> [] \<longrightarrow>
      (os \<in> set (DESKTOP_OS c) \<longrightarrow>
         getDevice c (Some s) os =
           Some (if os = js ''Chrome OS'' \<or>
                    num_lt (to_number (takeWhile (\<lambda>x. x \<noteq> 0x78) s)) (DESKTOP_SCREEN_WIDTH c)
                 then laptop else desktop)) \<and>
      (os \<notin> set (DESKTOP_OS c) \<and> os \<in> set (MOBILE_OS c) \<longrightarrow>
         getDevice c (Some s) os =
           Some (if os = js ''Amazon OS'' \<or>
                    num_gt (to_number (takeWhile (\<lambda>x. x \<noteq> 0x78) s)) (MOBILE_SCREEN_WIDTH c)
                 then tablet else mobile)) \<and>
      (os \<notin> set (DESKTOP_OS c) \<and> os \<notin> set (MOBILE_OS c) \<longrightarrow>
         getDevice c (Some s) os =
           Some (if num_ge (to_number (takeWhile (\<lambda>x. x \<noteq> 0x78) s)) (DESKTOP_SCREEN_WIDTH c) then desktop
                 else if num_ge (to_number (takeWhile (\<lambda>x. x \<noteq> 0x78) s)) (LAPTOP_SCREEN_WIDTH c) then laptop
                 else if num_ge (to_number (takeWhile (\<lambda>x. x \<noteq> 0x78) s)) (MOBILE_SCREEN_WIDTH c) then tablet
                 else mobile))"
    by (simp add: getDevice_unfold Let_def)
  have 3: "(js ''Windows'' \<in> set (DESKTOP_OS c) \<or> js ''Windows'' \<notin> set (MOBILE_OS c)) \<and>
      DESKTOP_SCREEN_WIDTH c \<le> 1920 \<longrightarrow>
      getDevice c (Some (js ''1920x1080'')) (js ''Windows'') = Some desktop"
    using os by (auto simp: getDevice_unfold [OF ne(1)] width_1920 Let_def)
  have 4: "js ''iOS'' \<notin> set (DESKTOP_OS c) \<and> js ''iOS'' \<in> set (MOBILE_OS c) \<and> 375 \<le> MOBILE_SCREEN_WIDTH c \<longrightarrow>
      getDevice c (Some (js ''375x667'')) (js ''iOS'') = Some mobile"
    using os by (auto simp: getDevice_unfold [OF ne(2)] width_375 Let_def)
  have 5: "js ''Amazon OS'' \<notin> set (DESKTOP_OS c) \<and> js ''Amazon OS'' \<in> set (MOBILE_OS c) \<longrightarrow>
      getDevice c (Some (js ''1024x768'')) (js ''Amazon OS'') = Some tablet"
    by (simp add: getDevice_unfold [OF ne(3)] Let_def)
  have 6: "js ''Chrome OS'' \<in> set (DESKTOP_OS c) \<longrightarrow>
      getDevice c (Some (js ''800x600'')) (js ''Chrome OS'') = Some laptop"
    by (simp add: getDevice_unfold [OF ne(4)] Let_def)
  show ?thesis using 1 2 3 4 5 6 by blast
qed

theorem getDevice_classification_witness:
  "getDevice sample_constants (Some (js ''1366x768'')) (js ''Linux'') = Some laptop \<and>
   getDevice sample_constants (Some (js ''1366x768'')) (js ''Android OS'') = Some tablet \<and>
   getDevice sample_constants (Some (js ''1366x768'')) (js ''Haiku'') = Some laptop \<and>
   getDevice sample_constants (Some (js ''1920x1080'')) (js ''Windows'') = Some desktop \<and>
   getDevice sample_constants (Some (js ''375x667'')) (js ''iOS'') = Some mobile \<and>
   getDevice sample_constants (Some (js ''1024x768'')) (js ''Amazon OS'') = Some tablet \<and>
   getDevice sample_constants (Some (js ''800x600'')) (js ''Chrome OS'') = Some laptop"
proof -
  have ne: "js ''1366x768'' \<noteq> []" by (simp add: js_def)
  have widths: "DESKTOP_SCREEN_WIDTH sample_constants = 1920"
    "LAPTOP_SCREEN_WIDTH sample_constants = 1024" "MOBILE_SCREEN_WIDTH sample_constants = 479"
    by (simp_all add: sample_constants_def)
  have mem: "js ''Linux'' \<in> set (DESKTOP_OS sample_constants)"
    "js ''Android OS'' \<notin> set (DESKTOP_OS sample_constants)"
    "js ''Android OS'' \<in> set (MOBILE_OS sample_constants)"
    "js ''Haiku'' \<notin> set (DESKTOP_OS sample_constants)"
    "js ''Haiku'' \<notin> set (MOBILE_OS sample_constants)"
    "js ''Windows'' \<in> set (DESKTOP_OS sample_constants)"
    "js ''iOS'' \<notin> set (DESKTOP_OS sample_constants)"
    "js ''iOS'' \<in> set (MOBILE_OS sample_constants)"
    "js ''Amazon OS'' \<notin> set (DESKTOP_OS sample_constants)"
    "js ''Amazon OS'' \<in> set (MOBILE_OS sample_constants)"
    "js ''Chrome OS'' \<in> set (DESKTOP_OS sample_constants)"
    by (simp_all add: sample_constants_def js_def)
  have neq: "js ''Linux'' \<noteq> js ''Chrome OS''" "js ''Android OS'' \<noteq> js ''Amazon OS''"
    by (simp_all add: js_def)
  have a: "getDevice sample_constants (Some (js ''1366x768'')) (js ''Linux'') = Some laptop"
    using getDevice_classification [of sample_constants "js ''Linux''" "js ''1366x768''"] ne mem neq
    by (simp add: width_1366 widths)
  have b: "getDevice sample_constants (Some (js ''1366x768'')) (js ''Android OS'') = Some tablet"
    using getDevice_classification [of sample_constants "js ''Android OS''" "js ''1366x768''"] ne mem neq
    by (simp add: width_1366 widths)
  have c: "getDevice sample_constants (Some (js ''1366x768'')) (js ''Haiku'') = Some laptop"
    using getDevice_classification [of sample_constants "js ''Haiku''" "js ''1366x768''"] ne mem
    by (simp add: width_1366 widths)
  have d: "getDevice sample_constants (Some (js ''1920x1080'')) (js ''Windows'') = Some desktop \<and>
   getDevice sample_constants (Some (js ''375x667'')) (js ''iOS'') = Some mobile \<and>
   getDevice sample_constants (Some (js ''1024x768'')) (js ''Amazon OS'') = Some tablet \<and>
   getDevice sample_constants (Some (js ''800x600'')) (js ''Chrome OS'') = Some laptop"
    using getDevice_classification [of sample_constants "js ''Linux''" "js ''1366x768''"] mem
    by (simp add: widths)
  show ?thesis using a b c d by blast
qed

text \<open>
  C10. On a non-empty screen whose width part coerces to NaN, \<^verbatim>\<open>getDevice\<close> returns a
  device (nothing is thrown) and every threshold comparison is false: an os of the
  desktop set other than Chrome OS gives desktop, an os of the mobile set other than
  Amazon OS gives mobile, and an os in neither set gives mobile.
\<close>

theorem getDevice_nan_width:
  assumes "s \<noteq> []" and "to_number (takeWhile (\<lambda>x. x \<noteq> 0x78) s) = NaN"
  shows "getDevice c (Some s) os =
      Some (if os \<in> set (DESKTOP_OS c) then (if os = js ''Chrome OS'' then laptop else desktop)
            else if os \<in> set (MOBILE_OS c) then (if os = js ''Amazon OS'' then tablet else mobile)
            else mobile) \<and>
    \<not> num_lt (screen_width s) (DESKTOP_SCREEN_WIDTH c) \<and>
    \<not> num_gt (screen_width s) (MOBILE_SCREEN_WIDTH c) \<and>
    \<not> num_ge (screen_width s) (DESKTOP_SCREEN_WIDTH c) \<and>
    \<not> num_ge (screen_width s) (LAPTOP_SCREEN_WIDTH c) \<and>
    \<not> num_ge (screen_width s) (MOBILE_SCREEN_WIDTH c)"
  using assms by (simp add: getDevice_unfold screen_width_takeWhile)

theorem getDevice_nan_width_witness:
  "getDevice sample_constants (Some (js ''widex600'')) (js ''Windows'') = Some desktop \<and>
   getDevice sample_constants (Some (js ''widex600'')) (js ''iOS'') = Some mobile \<and>
   getDevice sample_constants (Some (js ''widex600'')) (js ''Haiku'') = Some mobile"
proof -
  have ne: "js ''widex600'' \<noteq> []" by (simp add: js_def)
  have mem: "js ''Windows'' \<in> set (DESKTOP_OS sample_constants)"
    "js ''iOS'' \<notin> set (DESKTOP_OS sample_constants)"
    "js ''iOS'' \<in> set (MOBILE_OS sample_constants)"
    "js ''Haiku'' \<notin> set (DESKTOP_OS sample_constants)"
    "js ''Haiku'' \<notin> set (MOBILE_OS sample_constants)"
    by (simp_all add: sample_constants_def js_def)
  have neq: "js ''Windows'' \<noteq> js ''Chrome OS''" "js ''iOS'' \<noteq> js ''Amazon OS''"
    by (simp_all add: js_def)
  note t = getDevice_nan_width [OF ne width_nan, of sample_constants]
  have a: "getDevice sample_constants (Some (js ''widex600'')) (js ''Windows'') = Some desktop"
    using t [of "js ''Windows''"] mem neq by simp
  have b: "getDevice sample_constants (Some (js ''widex600'')) (js ''iOS'') = Some mobile"
    using t [of "js ''iOS''"] mem neq by simp
  have c: "getDevice sample_constants (Some (js ''widex600'')) (js ''Haiku'') = Some mobile"
    using t [of "js ''Haiku''"] mem by simp
  show ?thesis using a b c by blast
qed

subsection \<open>hasBlockedIp\<close>

lemma entry_blocks_cases:
  "entry_blocks lib c ip =
     (case entry_throws lib c ip of Some err \<Rightarrow> Inl err | None \<Rightarrow> Inr (entry_matches lib c ip))"
  by (auto simp: entry_blocks_def entry_throws_def entry_matches_def and_then_def
      split: sum.splits)

lemma find_entry_skip:
  "\<forall>p \<in> set pre. entry_throws lib c p = None \<and> \<not> entry_matches lib c p \<Longrightarrow>
   find_entry lib c (pre @ rest) = find_entry lib c rest"
  by (induction pre) (simp_all add: entry_blocks_cases and_then_def)

lemma find_entry_hit:
  "entry_throws lib c ip = None \<Longrightarrow> entry_matches lib c ip \<Longrightarrow>
   find_entry lib c (ip # post) = Inr (Some ip)"
  by (simp add: entry_blocks_cases and_then_def)

lemma find_entry_throw:
  "entry_throws lib c ip = Some err \<Longrightarrow> find_entry lib c (ip # post) = Inl err"
  by (simp add: entry_blocks_cases and_then_def)

lemma find_entry_none:
  "\<forall>p \<in> set ips. entry_throws lib c p = None \<and> \<not> entry_matches lib c p \<Longrightarrow>
   find_entry lib c ips = Inr None"
  using find_entry_skip [of ips lib c "[]"] by simp

lemma entry_matches_no_throw:
  "entry_matches lib c ip \<Longrightarrow> entry_throws lib c ip = None"
  by (auto simp: entry_matches_def entry_throws_def split: sum.splits)

lemma hasBlockedIp_unfold:
  "IGNORE_IP e = Some cfg \<Longrightarrow> cfg \<noteq> [] \<Longrightarrow>
   hasBlockedIp lib e c =
     and_then (find_entry lib c (blocklist cfg)) (\<lambda>found.
       case found of None \<Rightarrow> Inr Undefined | Some ip \<Rightarrow> Inr (String ip))"
  by (simp add: hasBlockedIp_def blocklist_def)

lemmas sample_lib_defs = sample_ipaddr_def sample_parse_def sample_parseCIDR_def parse_ipv4_def
  parse_ipv6_def is_digit_def is_hex_digit_def radix_value_def digit_value_def js_def Let_def

lemma sample_parse_examples:
  "parse sample_ipaddr (js ''10.1.2.3'') = Inr (IPv4 [10, 1, 2, 3])"
  "parse sample_ipaddr (js ''192.168.1.1'') = Inr (IPv4 [192, 168, 1, 1])"
  "parse sample_ipaddr (js ''0:0:0:0:0:0:0:1'') = Inr (IPv6 [0, 0, 0, 0, 0, 0, 0, 1])"
  "parse sample_ipaddr (js ''1.2.3.4'') = Inr (IPv4 [1, 2, 3, 4])"
  "parse sample_ipaddr (js ''not-an-ip'') = Inl ParseError"
  by (simp_all add: sample_lib_defs)

lemma sample_parseCIDR_examples:
  "parseCIDR sample_ipaddr (js ''10.0.0.0/8'') = Inr (IPv4 [10, 0, 0, 0], 8)"
  "parseCIDR sample_ipaddr (js ''10.0.0.0/33'') = Inl ParseError"
  by (simp_all add: sample_lib_defs)

lemma sample_kind_match:
  "kind_of sample_ipaddr = address_kind" "match_range sample_ipaddr = sample_match"
  by (simp_all add: sample_ipaddr_def)

lemma blocklist_examples:
  "blocklist (js ''10.0.0.0/8'') = [js ''10.0.0.0/8'']"
  "blocklist (js ''10.0.0.0/8, not-an-ip'') = [js ''10.0.0.0/8'', js ''not-an-ip'']"
  "blocklist (js ''10.0.0.0/33, 1.2.3.4'') = [js ''10.0.0.0/33'', js ''1.2.3.4'']"
  by (simp_all add: blocklist_def js_def trim_def is_white_space_def)

lemma slash_examples:
  "0 < index_of 0x2F (js ''10.0.0.0/8'')" "0 < index_of 0x2F (js ''10.0.0.0/33'')"
  by (simp_all add: js_def)

lemma differ_examples:
  "js ''10.0.0.0/8'' \<noteq> js ''10.1.2.3''" "js ''10.0.0.0/8'' \<noteq> js ''192.168.1.1''"
  "js ''10.0.0.0/8'' \<noteq> js ''0:0:0:0:0:0:0:1''" "js ''10.0.0.0/8'' \<noteq> js ''not-an-ip''"
  "js ''10.0.0.0/33'' \<noteq> js ''1.2.3.4''" "js ''10.0.0.0/8'' \<noteq> []" "js ''1.2.3.4'' \<noteq> []"
  "js ''10.0.0.0/8, not-an-ip'' \<noteq> []" "js ''10.0.0.0/33, 1.2.3.4'' \<noteq> []"
  "js ''1.2.3.5'' \<noteq> js ''1.2.3.4''"
  by (simp_all add: js_def)

text \<open>
  C4 (as amended). \<^verbatim>\<open>hasBlockedIp\<close> returns \<^verbatim>\<open>false\<close> when \<^verbatim>\<open>IGNORE_IP\<close> is unset
  or empty. Otherwise it returns the first entry of the list that blocks the candidate,
  as a string, when no entry before it throws, and \<^verbatim>\<open>undefined\<close> when no entry blocks
  and none throws. An entry blocks when it equals the candidate, or when it has a slash
  after its first character, the candidate and the entry parse, the two address families
  agree and the address matches the range; with different families the entry does not
  block and nothing is thrown. An entry without such a slash blocks only the candidate
  equal to it: with the single entry \<^verbatim>\<open>1.2.3.4\<close> the result is that string for the
  candidate \<^verbatim>\<open>1.2.3.4\<close> and \<^verbatim>\<open>undefined\<close> for every other candidate.
\<close>

theorem hasBlockedIp_result:
  "(IGNORE_IP e = None \<or> IGNORE_IP e = Some [] \<longrightarrow> hasBlockedIp lib e c = Inr (Boolean False)) \<and>
   (IGNORE_IP e = Some cfg \<and> cfg \<noteq> [] \<and> blocklist cfg = pre @ ip # post \<and>
    (\<forall>p \<in> set pre. entry_throws lib c p = None \<and> \<not> entry_matches lib c p) \<and>
    entry_matches lib c ip \<longrightarrow>
      hasBlockedIp lib e c = Inr (String ip)) \<and>
   (IGNORE_IP e = Some cfg \<and> cfg \<noteq> [] \<and>
    (\<forall>p \<in> set (blocklist cfg). entry_throws lib c p = None \<and> \<not> entry_matches lib c p) \<longrightarrow>
      hasBlockedIp lib e c = Inr Undefined) \<and>
   entry_matches lib c c \<and>
   (ip \<noteq> c \<and> 0 < index_of 0x2F ip \<and> parse lib c = Inr addr \<and> parseCIDR lib ip = Inr rng \<longrightarrow>
      entry_throws lib c ip = (if kind_of lib addr = kind_of lib (fst rng)
                               then (case match_range lib addr rng of Inl err \<Rightarrow> Some err | Inr _ \<Rightarrow> None)
                               else None) \<and>
      (entry_matches lib c ip \<longleftrightarrow>
         kind_of lib addr = kind_of lib (fst rng) \<and> match_range lib addr rng = Inr True)) \<and>
   (ip \<noteq> c \<and> \<not> 0 < index_of 0x2F ip \<longrightarrow>
      entry_throws lib c ip = None \<and> \<not> entry_matches lib c ip) \<and>
   (IGNORE_IP e = Some (js ''1.2.3.4'') \<longrightarrow>
      hasBlockedIp lib e c = Inr (if c = js ''1.2.3.4'' then String (js ''1.2.3.4'') else Undefined))"
proof (intro conjI impI)
  assume "IGNORE_IP e = None \<or> IGNORE_IP e = Some []"
  then show "hasBlockedIp lib e c = Inr (Boolean False)"
    by (auto simp: hasBlockedIp_def)
next
  assume a: "IGNORE_IP e = Some cfg \<and> cfg \<noteq> [] \<and> blocklist cfg = pre @ ip # post \<and>
    (\<forall>p \<in> set pre. entry_throws lib c p = None \<and> \<not> entry_matches lib c p) \<and>
    entry_matches lib c ip"
  then have "find_entry lib c (blocklist cfg) = Inr (Some ip)"
    by (simp add: find_entry_skip find_entry_hit entry_matches_no_throw del: find_entry.simps)
  then show "hasBlockedIp lib e c = Inr (String ip)"
    using a by (simp add: hasBlockedIp_unfold and_then_def)
next
  assume a: "IGNORE_IP e = Some cfg \<and> cfg \<noteq> [] \<and>
    (\<forall>p \<in> set (blocklist cfg). entry_throws lib c p = None \<and> \<not> entry_matches lib c p)"
  then have "find_entry lib c (blocklist cfg) = Inr None"
    by (simp add: find_entry_none)
  then show "hasBlockedIp lib e c = Inr Undefined"
    using a by (simp add: hasBlockedIp_unfold and_then_def)
next
  show "entry_matches lib c c" by (simp add: entry_matches_def)
next
  assume "ip \<noteq> c \<and> 0 < index_of 0x2F ip \<and> parse lib c = Inr addr \<and> parseCIDR lib ip = Inr rng"
  then show "entry_throws lib c ip = (if kind_of lib addr = kind_of lib (fst rng)
                               then (case match_range lib addr rng of Inl err \<Rightarrow> Some err | Inr _ \<Rightarrow> None)
                               else None)"
    by (simp add: entry_throws_def)
next
  assume "ip \<noteq> c \<and> 0 < index_of 0x2F ip \<and> parse lib c = Inr addr \<and> parseCIDR lib ip = Inr rng"
  then show "entry_matches lib c ip \<longleftrightarrow>
         kind_of lib addr = kind_of lib (fst rng) \<and> match_range lib addr rng = Inr True"
    by (simp add: entry_matches_def)
next
  assume "ip \<noteq> c \<and> \<not> 0 < index_of 0x2F ip"
  then show "entry_throws lib c ip = None" by (simp add: entry_throws_def)
next
  assume "ip \<noteq> c \<and> \<not> 0 < index_of 0x2F ip"
  then show "\<not> entry_matches lib c ip" by (simp add: entry_matches_def)
next
  assume a: "IGNORE_IP e = Some (js ''1.2.3.4'')"
  have ne: "js ''1.2.3.4'' \<noteq> []" by (simp add: js_def)
  have bl: "blocklist (js ''1.2.3.4'') = [js ''1.2.3.4'']"
    by (simp add: blocklist_def js_def trim_def is_white_space_def)
  have ix: "\<not> 0 < index_of 0x2F (js ''1.2.3.4'')" by (simp add: js_def)
  have "find_entry lib c [js ''1.2.3.4''] = Inr (if c = js ''1.2.3.4'' then Some (js ''1.2.3.4'') else None)"
    using ix by (auto simp: entry_blocks_def and_then_def)
  then show "hasBlockedIp lib e c = Inr (if c = js ''1.2.3.4'' then String (js ''1.2.3.4'') else Undefined)"
    by (simp add: hasBlockedIp_unfold [OF a ne] bl and_then_def)
qed

theorem hasBlockedIp_result_witness:
  "hasBlockedIp sample_ipaddr sample_env (js ''10.1.2.3'') = Inr (Boolean False) \<and>
   hasBlockedIp sample_ipaddr (sample_env\<lparr>IGNORE_IP := Some (js ''10.0.0.0/8'')\<rparr>) (js ''10.1.2.3'')
     = Inr (String (js ''10.0.0.0/8'')) \<and>
   hasBlockedIp sample_ipaddr (sample_env\<lparr>IGNORE_IP := Some (js ''10.0.0.0/8'')\<rparr>) (js ''192.168.1.1'')
     = Inr Undefined \<and>
   hasBlockedIp sample_ipaddr (sample_env\<lparr>IGNORE_IP := Some (js ''10.0.0.0/8'')\<rparr>) (js ''0:0:0:0:0:0:0:1'')
     = Inr Undefined \<and>
   hasBlockedIp sample_ipaddr (sample_env\<lparr>IGNORE_IP := Some (js ''1.2.3.4'')\<rparr>) (js ''1.2.3.4'')
     = Inr (String (js ''1.2.3.4'')) \<and>
   hasBlockedIp sample_ipaddr (sample_env\<lparr>IGNORE_IP := Some (js ''1.2.3.4'')\<rparr>) (js ''1.2.3.5'')
     = Inr Undefined \<and>
   entry_throws sample_ipaddr (js ''1.2.3.5'') (js ''1.2.3.4'') = None \<and>
   \<not> entry_matches sample_ipaddr (js ''1.2.3.5'') (js ''1.2.3.4'')"
proof -
  let ?e = "sample_env\<lparr>IGNORE_IP := Some (js ''10.0.0.0/8'')\<rparr>"
  let ?e' = "sample_env\<lparr>IGNORE_IP := Some (js ''1.2.3.4'')\<rparr>"
  let ?ip = "js ''10.0.0.0/8''"
  have cfg: "IGNORE_IP sample_env = None" "IGNORE_IP ?e = Some ?ip" "IGNORE_IP ?e' = Some (js ''1.2.3.4'')"
    by (simp_all add: sample_env_def)
  have bl: "blocklist ?ip = [] @ ?ip # []" and bl': "set (blocklist ?ip) = {?ip}"
    by (simp_all add: blocklist_examples)
  note r1 = hasBlockedIp_result [of sample_env sample_ipaddr "js ''10.1.2.3''" ?ip "[]" ?ip "[]"
      "IPv4 [10, 1, 2, 3]" "(IPv4 [10, 0, 0, 0], 8)"]
  note r2 = hasBlockedIp_result [of ?e sample_ipaddr "js ''10.1.2.3''" ?ip "[]" ?ip "[]"
      "IPv4 [10, 1, 2, 3]" "(IPv4 [10, 0, 0, 0], 8)"]
  note r3 = hasBlockedIp_result [of ?e sample_ipaddr "js ''192.168.1.1''" ?ip "[]" ?ip "[]"
      "IPv4 [192, 168, 1, 1]" "(IPv4 [10, 0, 0, 0], 8)"]
  note r4 = hasBlockedIp_result [of ?e sample_ipaddr "js ''0:0:0:0:0:0:0:1''" ?ip "[]" ?ip "[]"
      "IPv6 [0, 0, 0, 0, 0, 0, 0, 1]" "(IPv4 [10, 0, 0, 0], 8)"]
  note r5 = hasBlockedIp_result [of ?e' sample_ipaddr "js ''1.2.3.4''"]
  note r6 = hasBlockedIp_result [of ?e' sample_ipaddr "js ''1.2.3.5''"]
  have 1: "hasBlockedIp sample_ipaddr sample_env (js ''10.1.2.3'') = Inr (Boolean False)"
    using r1 cfg(1) by blast
  have m2: "entry_matches sample_ipaddr (js ''10.1.2.3'') ?ip"
    using r2 differ_examples(1) slash_examples(1) sample_parse_examples(1) sample_parseCIDR_examples(1)
    by (simp add: sample_kind_match)
  have 2: "hasBlockedIp sample_ipaddr ?e (js ''10.1.2.3'') = Inr (String ?ip)"
    using r2 cfg(2) differ_examples(6) bl m2 by simp
  have m3: "entry_throws sample_ipaddr (js ''192.168.1.1'') ?ip = None \<and>
      \<not> entry_matches sample_ipaddr (js ''192.168.1.1'') ?ip"
    using r3 differ_examples(2) slash_examples(1) sample_parse_examples(2) sample_parseCIDR_examples(1)
    by (simp add: sample_kind_match)
  have 3: "hasBlockedIp sample_ipaddr ?e (js ''192.168.1.1'') = Inr Undefined"
    using r3 cfg(2) differ_examples(6) bl' m3 by simp
  have m4: "entry_throws sample_ipaddr (js ''0:0:0:0:0:0:0:1'') ?ip = None \<and>
      \<not> entry_matches sample_ipaddr (js ''0:0:0:0:0:0:0:1'') ?ip"
    using r4 differ_examples(3) slash_examples(1) sample_parse_examples(3) sample_parseCIDR_examples(1)
    by (simp add: sample_kind_match)
  have 4: "hasBlockedIp sample_ipaddr ?e (js ''0:0:0:0:0:0:0:1'') = Inr Undefined"
    using r4 cfg(2) differ_examples(6) bl' m4 by simp
  have 5: "hasBlockedIp sample_ipaddr ?e' (js ''1.2.3.4'') = Inr (String (js ''1.2.3.4''))"
    using r5 cfg(3) by simp
  have 6: "hasBlockedIp sample_ipaddr ?e' (js ''1.2.3.5'') = Inr Undefined"
    using r6 cfg(3) differ_examples(10) by simp
  have ns: "js ''1.2.3.4'' \<noteq> js ''1.2.3.5'' \<and> \<not> 0 < index_of 0x2F (js ''1.2.3.4'')"
    by (simp add: js_def)
  have 7: "entry_throws sample_ipaddr (js ''1.2.3.5'') (js ''1.2.3.4'') = None \<and>
      \<not> entry_matches sample_ipaddr (js ''1.2.3.5'') (js ''1.2.3.4'')"
    by (rule hasBlockedIp_result [of ?e' sample_ipaddr "js ''1.2.3.5''" _ _ "js ''1.2.3.4''",
          THEN conjunct2, THEN conjunct2, THEN conjunct2, THEN conjunct2, THEN conjunct2,
          THEN conjunct1, THEN mp, OF ns])
  show ?thesis using 1 2 3 4 5 6 7 by blast
qed

text \<open>
  C4 as stated fails: the result of a match is the entry, a string, and the result of no
  match is \<^verbatim>\<open>undefined\<close>; neither is a boolean.
\<close>

theorem hasBlockedIp_boolean_counterexample:
  "hasBlockedIp sample_ipaddr (sample_env\<lparr>IGNORE_IP := Some (js ''1.2.3.4'')\<rparr>) (js ''1.2.3.4'')
     = Inr (String (js ''1.2.3.4'')) \<and>
   hasBlockedIp sample_ipaddr (sample_env\<lparr>IGNORE_IP := Some (js ''1.2.3.4'')\<rparr>) (js ''1.2.3.4'')
     \<noteq> Inr (Boolean True) \<and>
   hasBlockedIp sample_ipaddr (sample_env\<lparr>IGNORE_IP := Some (js ''1.2.3.4'')\<rparr>) (js ''1.2.3.5'')
     = Inr Undefined \<and>
   hasBlockedIp sample_ipaddr (sample_env\<lparr>IGNORE_IP := Some (js ''1.2.3.4'')\<rparr>) (js ''1.2.3.5'')
     \<noteq> Inr (Boolean False)"
  by (simp add: hasBlockedIp_def sample_env_def js_def trim_def is_white_space_def
        entry_blocks_def and_then_def)

text \<open>
  C2 (as amended). A malformed candidate or CIDR entry aborts \<^verbatim>\<open>hasBlockedIp\<close>: when
  the scan reaches an entry that differs from the candidate and has a slash after its
  first character, and the candidate does not parse, or it parses and the entry does not,
  the parser's exception is the outcome of the whole call, whatever entries follow.
\<close>

theorem hasBlockedIp_aborts:
  assumes "IGNORE_IP e = Some cfg" and "cfg \<noteq> []"
    and "blocklist cfg = pre @ ip # post"
    and "\<forall>p \<in> set pre. entry_throws lib c p = None \<and> \<not> entry_matches lib c p"
    and "ip \<noteq> c" and "0 < index_of 0x2F ip"
    and "parse lib c = Inl err \<or> (\<exists>addr. parse lib c = Inr addr \<and> parseCIDR lib ip = Inl err)"
  shows "hasBlockedIp lib e c = Inl err"
proof -
  have "entry_throws lib c ip = Some err"
    using assms(5,6,7) by (auto simp: entry_throws_def)
  then have "find_entry lib c (blocklist cfg) = Inl err"
    using assms(3,4) by (simp add: find_entry_skip find_entry_throw del: find_entry.simps)
  then show ?thesis
    using assms(1,2) by (simp add: hasBlockedIp_unfold and_then_def)
qed

theorem hasBlockedIp_aborts_witness:
  "hasBlockedIp sample_ipaddr (sample_env\<lparr>IGNORE_IP := Some (js ''10.0.0.0/8, not-an-ip'')\<rparr>)
     (js ''not-an-ip'') = Inl ParseError \<and>
   hasBlockedIp sample_ipaddr (sample_env\<lparr>IGNORE_IP := Some (js ''10.0.0.0/33, 1.2.3.4'')\<rparr>)
     (js ''1.2.3.4'') = Inl ParseError"
proof -
  let ?e1 = "sample_env\<lparr>IGNORE_IP := Some (js ''10.0.0.0/8, not-an-ip'')\<rparr>"
  let ?e2 = "sample_env\<lparr>IGNORE_IP := Some (js ''10.0.0.0/33, 1.2.3.4'')\<rparr>"
  have cfg: "IGNORE_IP ?e1 = Some (js ''10.0.0.0/8, not-an-ip'')"
    "IGNORE_IP ?e2 = Some (js ''10.0.0.0/33, 1.2.3.4'')"
    by (simp_all add: sample_env_def)
  have bl: "blocklist (js ''10.0.0.0/8, not-an-ip'') = [] @ js ''10.0.0.0/8'' # [js ''not-an-ip'']"
    "blocklist (js ''10.0.0.0/33, 1.2.3.4'') = [] @ js ''10.0.0.0/33'' # [js ''1.2.3.4'']"
    by (simp_all add: blocklist_examples)
  have none: "\<forall>p \<in> set []. entry_throws sample_ipaddr c p = None \<and> \<not> entry_matches sample_ipaddr c p" for c
    by simp
  have t1: "parse sample_ipaddr (js ''not-an-ip'') = Inl ParseError \<or>
      (\<exists>addr. parse sample_ipaddr (js ''not-an-ip'') = Inr addr \<and>
         parseCIDR sample_ipaddr (js ''10.0.0.0/8'') = Inl ParseError)"
    using sample_parse_examples(5) by simp
  have t2: "parse sample_ipaddr (js ''1.2.3.4'') = Inl ParseError \<or>
      (\<exists>addr. parse sample_ipaddr (js ''1.2.3.4'') = Inr addr \<and>
         parseCIDR sample_ipaddr (js ''10.0.0.0/33'') = Inl ParseError)"
    using sample_parse_examples(4) sample_parseCIDR_examples(2) by simp
  show ?thesis
    using hasBlockedIp_aborts [OF cfg(1) differ_examples(8) bl(1) none differ_examples(4) slash_examples(1) t1]
      hasBlockedIp_aborts [OF cfg(2) differ_examples(9) bl(2) none differ_examples(5) slash_examples(2) t2]
    by blast
qed

text \<open>
  C2 as stated fails: with a range first in the list, a candidate that does not parse
  aborts the call although the next entry equals it, and a range that does not parse
  aborts the call although the next entry equals the candidate.
\<close>

theorem hasBlockedIp_aborts_counterexample:
  "hasBlockedIp sample_ipaddr (sample_env\<lparr>IGNORE_IP := Some (js ''10.0.0.0/8, not-an-ip'')\<rparr>)
     (js ''not-an-ip'') = Inl ParseError \<and>
   hasBlockedIp sample_ipaddr (sample_env\<lparr>IGNORE_IP := Some (js ''10.0.0.0/33, 1.2.3.4'')\<rparr>)
     (js ''1.2.3.4'') = Inl ParseError \<and>
   entry_matches sample_ipaddr (js ''not-an-ip'') (js ''not-an-ip'') \<and>
   entry_matches sample_ipaddr (js ''1.2.3.4'') (js ''1.2.3.4'')"
proof -
  have 1: "find_entry sample_ipaddr (js ''not-an-ip'') [js ''10.0.0.0/8'', js ''not-an-ip''] = Inl ParseError"
    using differ_examples(4) slash_examples(1) sample_parse_examples(5)
    by (simp add: entry_blocks_def and_then_def)
  have 2: "find_entry sample_ipaddr (js ''1.2.3.4'') [js ''10.0.0.0/33'', js ''1.2.3.4''] = Inl ParseError"
    using differ_examples(5) slash_examples(2) sample_parse_examples(4) sample_parseCIDR_examples(2)
    by (simp add: entry_blocks_def and_then_def)
  have cfg: "IGNORE_IP (sample_env\<lparr>IGNORE_IP := Some (js ''10.0.0.0/8, not-an-ip'')\<rparr>) = Some (js ''10.0.0.0/8, not-an-ip'')"
    "IGNORE_IP (sample_env\<lparr>IGNORE_IP := Some (js ''10.0.0.0/33, 1.2.3.4'')\<rparr>) = Some (js ''10.0.0.0/33, 1.2.3.4'')"
    by (simp_all add: sample_env_def)
  show ?thesis
    using 1 2 differ_examples(8,9)
    by (simp add: hasBlockedIp_unfold [OF cfg(1)] hasBlockedIp_unfold [OF cfg(2)] blocklist_examples
          and_then_def entry_matches_def)
qed

subsection \<open>getLocation\<close>

lemma headers_get_location_names:
  "headers_get h (js ''cf-ipcountry'') = Inr (h (js ''cf-ipcountry''))"
  "headers_get h (js ''cf-region-code'') = Inr (h (js ''cf-region-code''))"
  "headers_get h (js ''cf-ipcity'') = Inr (h (js ''cf-ipcity''))"
  "headers_get h (js ''x-vercel-ip-country'') = Inr (h (js ''x-vercel-ip-country''))"
  "headers_get h (js ''x-vercel-ip-country-region'') = Inr (h (js ''x-vercel-ip-country-region''))"
  "headers_get h (js ''x-vercel-ip-city'') = Inr (h (js ''x-vercel-ip-city''))"
  by (simp_all add: headers_get_def header_name_defs)

lemma location_headers_cloudflare:
  "truthy (h (js ''cf-ipcountry'')) \<Longrightarrow>
   location_headers h =
     Inr (Some \<lparr>country = decodeHeader (h (js ''cf-ipcountry'')),
                region = getRegionCode (decodeHeader (h (js ''cf-ipcountry'')))
                           (decodeHeader (h (js ''cf-region-code''))),
                city = decodeHeader (h (js ''cf-ipcity''))\<rparr>)"
  by (simp add: location_headers_def header_location_def headers_get_location_names and_then_def Let_def)

lemma location_headers_total: "\<exists>r. location_headers h = Inr r"
  by (simp add: location_headers_def header_location_def headers_get_location_names and_then_def Let_def)

text \<open>A header value of ASCII characters is its own decoding.\<close>

lemma utf8_decode_ascii:
  "list_all (\<lambda>b. b \<le> 0x7F) bs \<Longrightarrow> utf8_decode 0 0 0x80 0xBF bs = bs"
  by (induction bs) simp_all

lemma decodeHeader_ascii:
  assumes "list_all (\<lambda>c. c \<le> 0x7F) s"
  shows "decodeHeader (Some s) = Some s"
proof -
  have b: "latin1_bytes s = map unat s \<and> list_all (\<lambda>b. b \<le> 0x7F) (map unat s)"
    using assms
  proof (induction s)
    case Nil
    then show ?case by (simp add: latin1_bytes_def)
  next
    case (Cons c s)
    then have "unat c \<le> 0x7F" by (simp add: word_le_nat_alt)
    then show ?case using Cons by (simp add: latin1_bytes_def)
  qed
  have u: "concat (map utf16_units (map unat s)) = s"
    using assms
  proof (induction s)
    case Nil
    then show ?case by simp
  next
    case (Cons c s)
    then have "unat c \<le> 0x7F" by (simp add: word_le_nat_alt)
    then show ?case using Cons by (simp add: utf16_units_def)
  qed
  show ?thesis using b u by (simp add: decodeHeader_def utf8_decode_ascii)
qed

lemma mod_shifted:
  fixes q :: nat
  assumes "q < m"
  shows "(k * m + q) mod m = q"
  using assms by simp

text \<open>
  A two-byte UTF-8 sequence that was read as two Latin-1 characters is decoded to the
  character it encodes.
\<close>

lemma decodeHeader_two_bytes:
  assumes "0x80 \<le> cp" and "cp < 0x800"
  shows "decodeHeader (Some [of_nat (0xC0 + cp div 64), of_nat (0x80 + cp mod 64)]) = Some [of_nat cp]"
proof -
  define q where "q = cp div 64"
  define r where "r = cp mod 64"
  have q: "2 \<le> q" "q < 32"
    using assms div_le_mono [of 128 cp 64] less_mult_imp_div_less [of cp 32 64]
    by (simp_all add: q_def)
  have r: "r < 64" by (simp add: r_def)
  have cp: "q * 64 + r = cp" by (simp add: q_def r_def)
  have b1: "(192 + q) mod 32 = q" using mod_shifted [OF q(2), of 6] by simp
  have b2: "(128 + r) mod 64 = r" using mod_shifted [OF r, of 2] by simp
  have u: "unat (of_nat (192 + q) :: code_unit) = 192 + q" "unat (of_nat (128 + r) :: code_unit) = 128 + r"
    using q r by (simp_all only: unat_of_nat, simp_all)
  have bytes: "latin1_bytes [of_nat (192 + q), of_nat (128 + r)] = [192 + q, 128 + r]"
    using u q r by (simp add: latin1_bytes_def)
  have d: "utf8_decode 0 0 0x80 0xBF [192 + q, 128 + r] = [cp]"
    using q r b1 b2 cp by simp
  have "decodeHeader (Some [of_nat (192 + q), of_nat (128 + r)]) = Some [of_nat cp]"
    unfolding decodeHeader_def option.case bytes d using assms(2) by (simp add: utf16_units_def)
  then show ?thesis unfolding q_def r_def .
qed

lemma sample_not_local:
  "isLocalhost sample_geo (Some (js ''203.0.113.9'')) = Inr False"
  "isLocalhost sample_geo (Some (js ''203.0.113.9:4711'')) = Inr False"
  "isLocalhost sample_geo (Some (js ''2001:db8::1'')) = Inr False"
  "isLocalhost sample_geo (Some (js ''198.51.100.7'')) = Inr False"
  by (simp_all add: sample_geo_def js_def)

lemma sample_path: "database_path sample_geo sample_env = js ''/app/geo/GeoLite2-City.mmdb''"
  by (simp add: database_path_def sample_geo_def sample_env_def)

lemma sample_open: "maxmind_open sample_geo p = Inr sample_database"
  by (simp add: sample_geo_def)

lemma sample_get:
  "reader_get sample_geo sample_database (Some (js ''203.0.113.9'')) =
     Inr (Some \<lparr>country_iso_code = None, registered_country_iso_code = Some (js ''DE''),
        subdivisions_iso_code = [Some (js ''DE-BE'')], city_names_en = Some (js ''Berlin'')\<rparr>)"
  "reader_get sample_geo sample_database (Some (js ''2001'')) = Inr None"
  "reader_get sample_geo sample_database (Some (js ''198.51.100.7'')) = Inr None"
  "reader_get sample_geo sample_database (Some (js ''2001:db8::1'')) =
     Inr (Some \<lparr>country_iso_code = Some (js ''US''), registered_country_iso_code = None,
        subdivisions_iso_code = [Some (js ''CA'')], city_names_en = Some (js ''San Francisco'')\<rparr>)"
  by (simp_all add: sample_geo_def sample_database_def js_def)

lemma cleanIp_examples:
  "cleanIp (Some (js ''203.0.113.9:4711'')) = Some (js ''203.0.113.9'')"
  "cleanIp (Some (js ''203.0.113.9'')) = Some (js ''203.0.113.9'')"
  "cleanIp (Some (js ''2001:db8::1'')) = Some (js ''2001'')"
  "cleanIp (Some (js ''198.51.100.7'')) = Some (js ''198.51.100.7'')"
  by (simp_all add: cleanIp_def first_piece_def js_def)

lemma getRegionCode_examples:
  "getRegionCode (Some (js ''US'')) (Some (js ''CA'')) = Some (js ''US-CA'')"
  "getRegionCode (Some (js ''US'')) (Some (js ''US-CA'')) = Some (js ''US-CA'')"
  "getRegionCode None (Some (js ''CA'')) = None"
  "getRegionCode (Some (js ''DE'')) (Some (js ''DE-BE'')) = Some (js ''DE-BE'')"
  "getRegionCode (Some (js ''BR'')) (Some (js ''SP'')) = Some (js ''BR-SP'')"
  by (simp_all add: getRegionCode_def js_def)

lemma sample_skip: "\<not> truthy (SKIP_LOCATION_HEADERS sample_env)"
  by (simp add: sample_env_def)

lemma location_headers_empty: "location_headers Map.empty = Inr None"
  by (simp add: location_headers_def headers_get_location_names and_then_def)

lemma sample_call_fields:
  "call_ip (sample_call s) = Some (js s)" "call_headers (sample_call s) = Map.empty"
  "call_hasPayloadIP (sample_call s) = False"
  by (simp_all add: sample_call_def)

lemma sample_lookup:
  "lookup_location sample_geo (Some (js ''203.0.113.9''))
     \<lparr>global_maxmind = Some sample_database, opens = os, lookups = ls\<rparr> =
     (Inr (Some \<lparr>country = Some (js ''DE''), region = Some (js ''DE-BE''), city = Some (js ''Berlin'')\<rparr>),
      \<lparr>global_maxmind = Some sample_database, opens = os, lookups = ls @ [Some (js ''203.0.113.9'')]\<rparr>)"
  "lookup_location sample_geo (Some (js ''198.51.100.7''))
     \<lparr>global_maxmind = Some sample_database, opens = os, lookups = ls\<rparr> =
     (Inr None,
      \<lparr>global_maxmind = Some sample_database, opens = os, lookups = ls @ [Some (js ''198.51.100.7'')]\<rparr>)"
  by (simp_all add: lookup_location_def cleanIp_examples sample_get response_location_def
        getRegionCode_examples)

text \<open>
  C6 (as amended). When the IP is not payload-supplied, \<^verbatim>\<open>SKIP_LOCATION_HEADERS\<close> is
  unset or empty and the IP is not local, a \<^verbatim>\<open>cf-ipcountry\<close> header with a non-empty
  value makes \<^verbatim>\<open>getLocation\<close> return at once, with no open and no lookup (the state is
  unchanged): the country and the city are the Cloudflare headers \<^verbatim>\<open>cf-ipcountry\<close> and
  \<^verbatim>\<open>cf-ipcity\<close>, each with its Latin-1 bytes decoded as UTF-8, and the region is
  \<^verbatim>\<open>getRegionCode\<close> of the decoded country and the decoded \<^verbatim>\<open>cf-region-code\<close>.
  When the IP is payload-supplied or the flag has a non-empty value, the headers play no
  part: the result is the same for every header set, and for an IP that is not local it is
  that of the database section.
\<close>

theorem getLocation_cloudflare:
  "(isLocalhost g ip = Inr False \<and> \<not> hasPayloadIP \<and> \<not> truthy (SKIP_LOCATION_HEADERS e) \<and>
    truthy (h (js ''cf-ipcountry'')) \<longrightarrow>
      getLocation g e ip h hasPayloadIP st =
        (Inr (Some \<lparr>country = decodeHeader (h (js ''cf-ipcountry'')),
                    region = getRegionCode (decodeHeader (h (js ''cf-ipcountry'')))
                               (decodeHeader (h (js ''cf-region-code''))),
                    city = decodeHeader (h (js ''cf-ipcity''))\<rparr>),
         st)) \<and>
   (hasPayloadIP \<or> truthy (SKIP_LOCATION_HEADERS e) \<longrightarrow>
      getLocation g e ip h hasPayloadIP st = getLocation g e ip h' hasPayloadIP st \<and>
      (isLocalhost g ip = Inr False \<longrightarrow>
         getLocation g e ip h hasPayloadIP st = database_lookup g e ip st))"
proof (intro conjI impI)
  assume "isLocalhost g ip = Inr False \<and> \<not> hasPayloadIP \<and> \<not> truthy (SKIP_LOCATION_HEADERS e) \<and>
    truthy (h (js ''cf-ipcountry''))"
  then show "getLocation g e ip h hasPayloadIP st =
        (Inr (Some \<lparr>country = decodeHeader (h (js ''cf-ipcountry'')),
                    region = getRegionCode (decodeHeader (h (js ''cf-ipcountry'')))
                               (decodeHeader (h (js ''cf-region-code''))),
                    city = decodeHeader (h (js ''cf-ipcity''))\<rparr>),
         st)"
    by (simp add: getLocation_def location_headers_cloudflare)
next
  assume "hasPayloadIP \<or> truthy (SKIP_LOCATION_HEADERS e)"
  then show "getLocation g e ip h hasPayloadIP st = getLocation g e ip h' hasPayloadIP st"
    by (auto simp: getLocation_def)
next
  assume "hasPayloadIP \<or> truthy (SKIP_LOCATION_HEADERS e)" and "isLocalhost g ip = Inr False"
  then show "getLocation g e ip h hasPayloadIP st = database_lookup g e ip st"
    by (auto simp: getLocation_def)
qed

theorem getLocation_cloudflare_witness:
  "getLocation sample_geo sample_env (Some (js ''203.0.113.9''))
     [js ''cf-ipcountry'' \<mapsto> js ''BR'', js ''cf-region-code'' \<mapsto> js ''SP'',
      js ''cf-ipcity'' \<mapsto> [0x53, 0xC3, 0xA3, 0x6F]] False initial_state =
     (Inr (Some \<lparr>country = Some (js ''BR''), region = Some (js ''BR-SP''),
                 city = Some [0x53, 0xE3, 0x6F]\<rparr>), initial_state) \<and>
   getLocation sample_geo sample_env (Some (js ''203.0.113.9''))
     [js ''cf-ipcountry'' \<mapsto> js ''BR'', js ''cf-region-code'' \<mapsto> js ''SP'',
      js ''cf-ipcity'' \<mapsto> [0x53, 0xC3, 0xA3, 0x6F]] True initial_state =
     (Inr (Some \<lparr>country = Some (js ''DE''), region = Some (js ''DE-BE''), city = Some (js ''Berlin'')\<rparr>),
      \<lparr>global_maxmind = Some sample_database, opens = [js ''/app/geo/GeoLite2-City.mmdb''],
       lookups = [Some (js ''203.0.113.9'')]\<rparr>)"
proof -
  let ?h = "[js ''cf-ipcountry'' \<mapsto> js ''BR'', js ''cf-region-code'' \<mapsto> js ''SP'',
      js ''cf-ipcity'' \<mapsto> [0x53, 0xC3, 0xA3, 0x6F]]"
  have hs: "?h (js ''cf-ipcountry'') = Some (js ''BR'')" "?h (js ''cf-region-code'') = Some (js ''SP'')"
    "?h (js ''cf-ipcity'') = Some [0x53, 0xC3, 0xA3, 0x6F]"
    by (simp_all add: js_def)
  have t: "truthy (?h (js ''cf-ipcountry''))" by (simp add: js_def)
  have d: "decodeHeader (Some (js ''BR'')) = Some (js ''BR'')"
    "decodeHeader (Some (js ''SP'')) = Some (js ''SP'')"
    "decodeHeader (Some [0x53, 0xC3, 0xA3, 0x6F]) = Some [0x53, 0xE3, 0x6F]"
    by (simp_all add: decodeHeader_def latin1_bytes_def utf16_units_def js_def)
  have db: "database_lookup sample_geo sample_env (Some (js ''203.0.113.9'')) initial_state =
     (Inr (Some \<lparr>country = Some (js ''DE''), region = Some (js ''DE-BE''), city = Some (js ''Berlin'')\<rparr>),
      \<lparr>global_maxmind = Some sample_database, opens = [js ''/app/geo/GeoLite2-City.mmdb''],
       lookups = [Some (js ''203.0.113.9'')]\<rparr>)"
    by (simp add: database_lookup_def lookup_location_def sample_open sample_path cleanIp_examples
          sample_get response_location_def getRegionCode_examples initial_state_def)
  have 1: "getLocation sample_geo sample_env (Some (js ''203.0.113.9'')) ?h False initial_state =
     (Inr (Some \<lparr>country = Some (js ''BR''), region = Some (js ''BR-SP''),
                 city = Some [0x53, 0xE3, 0x6F]\<rparr>), initial_state)"
    using getLocation_cloudflare [of sample_geo "Some (js ''203.0.113.9'')" False sample_env ?h
        initial_state] sample_not_local(1) sample_skip t
    by (simp only: hs d getRegionCode_examples simp_thms)
  have 2: "getLocation sample_geo sample_env (Some (js ''203.0.113.9'')) ?h True initial_state =
     database_lookup sample_geo sample_env (Some (js ''203.0.113.9'')) initial_state"
    using getLocation_cloudflare [of sample_geo "Some (js ''203.0.113.9'')" True sample_env ?h
        initial_state] sample_not_local(1)
    by (simp only: simp_thms)
  show ?thesis using 1 2 db by (simp only: simp_thms)
qed

text \<open>
  C6 as stated fails: the region returned is not the decoded \<^verbatim>\<open>cf-region-code\<close> but
  the composite of country and region code (\<^verbatim>\<open>BR-SP\<close> for \<^verbatim>\<open>BR\<close> and \<^verbatim>\<open>SP\<close>);
  and a \<^verbatim>\<open>cf-ipcountry\<close> header that is present with an empty value does not start the
  fast path: the database is opened and queried.
\<close>

theorem getLocation_cloudflare_counterexample:
  "getLocation sample_geo sample_env (Some (js ''203.0.113.9''))
     [js ''cf-ipcountry'' \<mapsto> js ''BR'', js ''cf-region-code'' \<mapsto> js ''SP'',
      js ''cf-ipcity'' \<mapsto> js ''Santos''] False initial_state =
     (Inr (Some \<lparr>country = Some (js ''BR''), region = Some (js ''BR-SP''),
                 city = Some (js ''Santos'')\<rparr>), initial_state) \<and>
   decodeHeader (Some (js ''SP'')) = Some (js ''SP'') \<and>
   js ''BR-SP'' \<noteq> js ''SP'' \<and>
   [js ''cf-ipcountry'' \<mapsto> ([] :: jsstring)] (js ''cf-ipcountry'') = Some [] \<and>
   getLocation sample_geo sample_env (Some (js ''203.0.113.9''))
     [js ''cf-ipcountry'' \<mapsto> []] False initial_state =
     (Inr (Some \<lparr>country = Some (js ''DE''), region = Some (js ''DE-BE''), city = Some (js ''Berlin'')\<rparr>),
      \<lparr>global_maxmind = Some sample_database, opens = [js ''/app/geo/GeoLite2-City.mmdb''],
       lookups = [Some (js ''203.0.113.9'')]\<rparr>)"
proof -
  let ?h = "[js ''cf-ipcountry'' \<mapsto> js ''BR'', js ''cf-region-code'' \<mapsto> js ''SP'',
      js ''cf-ipcity'' \<mapsto> js ''Santos'']"
  let ?empty = "[js ''cf-ipcountry'' \<mapsto> ([] :: jsstring)]"
  have hs: "?h (js ''cf-ipcountry'') = Some (js ''BR'')" "?h (js ''cf-region-code'') = Some (js ''SP'')"
    "?h (js ''cf-ipcity'') = Some (js ''Santos'')"
    by (simp_all add: js_def)
  have hs0: "?empty (js ''cf-ipcountry'') = Some []" "?empty (js ''x-vercel-ip-country'') = None"
    by (simp_all add: js_def)
  have ne: "js ''BR'' \<noteq> []" "js ''BR-SP'' \<noteq> js ''SP''" by (simp_all add: js_def)
  have d: "decodeHeader (Some (js ''BR'')) = Some (js ''BR'')"
    "decodeHeader (Some (js ''SP'')) = Some (js ''SP'')"
    "decodeHeader (Some (js ''Santos'')) = Some (js ''Santos'')"
    by (simp_all add: decodeHeader_def latin1_bytes_def utf16_units_def js_def)
  have lh: "location_headers ?h =
      Inr (Some \<lparr>country = Some (js ''BR''), region = Some (js ''BR-SP''), city = Some (js ''Santos'')\<rparr>)"
    unfolding location_headers_def header_location_def headers_get_location_names hs
    using ne(1) by (simp add: and_then_def d getRegionCode_examples)
  have lh0: "location_headers ?empty = Inr None"
    unfolding location_headers_def headers_get_location_names hs0
    by (simp add: and_then_def)
  have 1: "getLocation sample_geo sample_env (Some (js ''203.0.113.9'')) ?h False initial_state =
     (Inr (Some \<lparr>country = Some (js ''BR''), region = Some (js ''BR-SP''),
                 city = Some (js ''Santos'')\<rparr>), initial_state)"
    unfolding getLocation_def sample_not_local lh using sample_skip by simp
  have 2: "getLocation sample_geo sample_env (Some (js ''203.0.113.9'')) ?empty False initial_state =
     (Inr (Some \<lparr>country = Some (js ''DE''), region = Some (js ''DE-BE''), city = Some (js ''Berlin'')\<rparr>),
      \<lparr>global_maxmind = Some sample_database, opens = [js ''/app/geo/GeoLite2-City.mmdb''],
       lookups = [Some (js ''203.0.113.9'')]\<rparr>)"
    unfolding getLocation_def sample_not_local lh0 using sample_skip
    by (simp add: database_lookup_def lookup_location_def sample_open sample_path cleanIp_examples
          sample_get response_location_def getRegionCode_examples initial_state_def)
  show ?thesis using 1 2 d(2) ne(2) hs0(1) by (simp only: simp_thms)
qed

text \<open>
  The database section: when the IP is not local and the headers gave nothing, the
  reader is asked for the part of the IP before its first colon, and a hit gives the
  country with its fallback, the region code and the English city name.
\<close>

lemma getLocation_database_section:
  assumes "isLocalhost g ip = Inr False"
    and "hasPayloadIP \<or> truthy (SKIP_LOCATION_HEADERS e) \<or> location_headers h = Inr None"
    and "global_maxmind st = Some reader"
  shows "getLocation g e ip h hasPayloadIP st =
      (case reader_get g reader (cleanIp ip) of
         Inl err \<Rightarrow> Inl err
       | Inr None \<Rightarrow> Inr None
       | Inr (Some result) \<Rightarrow>
           Inr (Some \<lparr>country = (case country_iso_code result of
                                    Some c \<Rightarrow> Some c
                                  | None \<Rightarrow> registered_country_iso_code result),
                       region = getRegionCode
                                  (case country_iso_code result of
                                     Some c \<Rightarrow> Some c
                                   | None \<Rightarrow> registered_country_iso_code result)
                                  (case subdivisions_iso_code result of [] \<Rightarrow> None | s # _ \<Rightarrow> s),
                       city = city_names_en result\<rparr>),
       st\<lparr>lookups := lookups st @ [cleanIp ip]\<rparr>)"
  using assms
  by (auto simp: getLocation_def database_lookup_def lookup_location_def response_location_def
      Let_def split: sum.splits option.splits)

lemma cleanIp_takeWhile: "cleanIp (Some s) = Some (takeWhile (\<lambda>c. c \<noteq> 0x3A) s)"
  by (simp add: cleanIp_def first_piece_takeWhile)

text \<open>
  C3. The database is queried with the part of the IP before its first colon. For an
  IPv4 address with a port this is the address, and on a hit the country falls back to
  the registered country, a subdivision code with a hyphen is passed through and the city
  is the English name. For the IPv6 address \<^verbatim>\<open>2001:db8::1\<close>, which has no port, the
  key is \<^verbatim>\<open>2001\<close>: the address is not left unchanged, and the record that the
  database holds for it is not found.
\<close>

theorem getLocation_ipv6_lookup_key:
  "getLocation sample_geo sample_env (Some (js ''203.0.113.9:4711'')) Map.empty False initial_state =
     (Inr (Some \<lparr>country = Some (js ''DE''), region = Some (js ''DE-BE''), city = Some (js ''Berlin'')\<rparr>),
      \<lparr>global_maxmind = Some sample_database, opens = [js ''/app/geo/GeoLite2-City.mmdb''],
       lookups = [Some (js ''203.0.113.9'')]\<rparr>) \<and>
   reader_get sample_geo sample_database (Some (js ''2001:db8::1'')) =
     Inr (Some \<lparr>country_iso_code = Some (js ''US''), registered_country_iso_code = None,
        subdivisions_iso_code = [Some (js ''CA'')], city_names_en = Some (js ''San Francisco'')\<rparr>) \<and>
   cleanIp (Some (js ''2001:db8::1'')) = Some (js ''2001'') \<and>
   getLocation sample_geo sample_env (Some (js ''2001:db8::1'')) Map.empty False initial_state =
     (Inr None,
      \<lparr>global_maxmind = Some sample_database, opens = [js ''/app/geo/GeoLite2-City.mmdb''],
       lookups = [Some (js ''2001'')]\<rparr>)"
proof -
  have 1: "getLocation sample_geo sample_env (Some (js ''203.0.113.9:4711'')) Map.empty False initial_state =
     (Inr (Some \<lparr>country = Some (js ''DE''), region = Some (js ''DE-BE''), city = Some (js ''Berlin'')\<rparr>),
      \<lparr>global_maxmind = Some sample_database, opens = [js ''/app/geo/GeoLite2-City.mmdb''],
       lookups = [Some (js ''203.0.113.9'')]\<rparr>)"
    by (simp add: getLocation_def sample_not_local sample_skip location_headers_empty
          database_lookup_def lookup_location_def sample_open sample_path cleanIp_examples
          sample_get response_location_def getRegionCode_examples initial_state_def)
  have 2: "getLocation sample_geo sample_env (Some (js ''2001:db8::1'')) Map.empty False initial_state =
     (Inr None,
      \<lparr>global_maxmind = Some sample_database, opens = [js ''/app/geo/GeoLite2-City.mmdb''],
       lookups = [Some (js ''2001'')]\<rparr>)"
    by (simp add: getLocation_def sample_not_local sample_skip location_headers_empty
          database_lookup_def lookup_location_def sample_open sample_path cleanIp_examples
          sample_get initial_state_def)
  show ?thesis using 1 2 sample_get(4) cleanIp_examples(3) by simp
qed

lemma lookup_location_keeps:
  "opens (snd (lookup_location g ip st)) = opens st \<and>
   global_maxmind (snd (lookup_location g ip st)) = global_maxmind st"
  by (simp add: lookup_location_def split: option.splits sum.splits)

lemma database_lookup_reuse:
  "global_maxmind st = Some r \<Longrightarrow>
   opens (snd (database_lookup g e ip st)) = opens st \<and>
   global_maxmind (snd (database_lookup g e ip st)) = Some r"
  by (simp add: database_lookup_def lookup_location_keeps)

lemma database_lookup_first:
  "global_maxmind st = None \<Longrightarrow> maxmind_open g (database_path g e) = Inr reader \<Longrightarrow>
   opens (snd (database_lookup g e ip st)) = opens st @ [database_path g e] \<and>
   global_maxmind (snd (database_lookup g e ip st)) = Some reader"
  by (simp add: database_lookup_def lookup_location_keeps)

lemma getLocation_state:
  "snd (getLocation g e ip h p st) = st \<or>
   snd (getLocation g e ip h p st) = snd (database_lookup g e ip st)"
  by (simp add: getLocation_def split: sum.splits bool.splits option.splits)

lemma getLocation_reuse:
  assumes "global_maxmind st = Some r"
  shows "opens (snd (getLocation g e ip h p st)) = opens st \<and>
    global_maxmind (snd (getLocation g e ip h p st)) = Some r"
  using getLocation_state [of g e ip h p st] database_lookup_reuse [OF assms, of g e ip] assms
  by auto

lemma getLocation_first:
  assumes "global_maxmind st = None" and "maxmind_open g (database_path g e) = Inr reader"
  shows "(opens (snd (getLocation g e ip h p st)) = opens st \<and>
     global_maxmind (snd (getLocation g e ip h p st)) = None) \<or>
    (opens (snd (getLocation g e ip h p st)) = opens st @ [database_path g e] \<and>
     global_maxmind (snd (getLocation g e ip h p st)) = Some reader)"
  using getLocation_state [of g e ip h p st] database_lookup_first [OF assms, of ip] assms(1)
  by auto

lemma in_sequence_reuse:
  "global_maxmind st = Some r \<Longrightarrow>
   opens (in_sequence g e calls st) = opens st \<and> global_maxmind (in_sequence g e calls st) = Some r"
proof (induction calls arbitrary: st)
  case Nil
  then show ?case by simp
next
  case (Cons a calls)
  let ?st = "snd (getLocation g e (call_ip a) (call_headers a) (call_hasPayloadIP a) st)"
  have "opens ?st = opens st \<and> global_maxmind ?st = Some r"
    using getLocation_reuse [OF Cons.prems] by simp
  then show ?case using Cons.IH [of ?st] by simp
qed

lemma in_sequence_first:
  assumes "maxmind_open g (database_path g e) = Inr reader"
  shows "global_maxmind st = None \<Longrightarrow>
   (opens (in_sequence g e calls st) = opens st \<and> global_maxmind (in_sequence g e calls st) = None) \<or>
   (opens (in_sequence g e calls st) = opens st @ [database_path g e] \<and>
    global_maxmind (in_sequence g e calls st) = Some reader)"
proof (induction calls arbitrary: st)
  case Nil
  then show ?case by simp
next
  case (Cons a calls)
  let ?st = "snd (getLocation g e (call_ip a) (call_headers a) (call_hasPayloadIP a) st)"
  have "(opens ?st = opens st \<and> global_maxmind ?st = None) \<or>
    (opens ?st = opens st @ [database_path g e] \<and> global_maxmind ?st = Some reader)"
    by (rule getLocation_first [OF Cons.prems assms])
  then show ?case
  proof (elim disjE conjE)
    assume "opens ?st = opens st" and "global_maxmind ?st = None"
    then show ?thesis using Cons.IH [of ?st] by simp
  next
    assume "opens ?st = opens st @ [database_path g e]" and "global_maxmind ?st = Some reader"
    then show ?thesis using in_sequence_reuse [of ?st reader g e calls] by simp
  qed
qed

lemma run_alone:
  "run_schedule g e [0, 0] ([Called a], st) =
     ([Finished (fst (getLocation g e (call_ip a) (call_headers a) (call_hasPayloadIP a) st))],
      snd (getLocation g e (call_ip a) (call_headers a) (call_hasPayloadIP a) st))"
  by (simp add: resume_def getLocation_def database_lookup_def
      split: sum.splits bool.splits option.splits prod.splits)

text \<open>
  C8 (as amended). Calls made one after the other open the database at most once when
  the open succeeds: once the global holds a handle, no later call opens and the global
  keeps that handle; from an unset global, either no call reached the database and
  nothing was opened, or exactly one open was made and the global holds its handle. A call
  that runs alone through its two resumptions behaves as \<^verbatim>\<open>getLocation\<close> does.
\<close>

theorem getLocation_opens_in_sequence:
  assumes "maxmind_open g (database_path g e) = Inr reader"
  shows "(global_maxmind st = Some r \<longrightarrow>
       opens (in_sequence g e calls st) = opens st \<and>
       global_maxmind (in_sequence g e calls st) = Some r) \<and>
    (global_maxmind st = None \<longrightarrow>
       (opens (in_sequence g e calls st) = opens st \<and>
        global_maxmind (in_sequence g e calls st) = None) \<or>
       (opens (in_sequence g e calls st) = opens st @ [database_path g e] \<and>
        global_maxmind (in_sequence g e calls st) = Some reader)) \<and>
    run_schedule g e [0, 0] ([Called a], st) =
      ([Finished (fst (getLocation g e (call_ip a) (call_headers a) (call_hasPayloadIP a) st))],
       snd (getLocation g e (call_ip a) (call_headers a) (call_hasPayloadIP a) st))"
  using in_sequence_reuse [of st r g e calls] in_sequence_first [OF assms, of st calls] run_alone [of g e a st]
  by blast

theorem getLocation_opens_in_sequence_witness:
  "maxmind_open sample_geo (database_path sample_geo sample_env) = Inr sample_database \<and>
   global_maxmind (initial_state :: sample_reader state) = None \<and>
   in_sequence sample_geo sample_env [sample_call ''203.0.113.9'', sample_call ''198.51.100.7'']
     initial_state =
     \<lparr>global_maxmind = Some sample_database, opens = [js ''/app/geo/GeoLite2-City.mmdb''],
      lookups = [Some (js ''203.0.113.9''), Some (js ''198.51.100.7'')]\<rparr> \<and>
   length (opens (in_sequence sample_geo sample_env
                    [sample_call ''203.0.113.9'', sample_call ''198.51.100.7''] initial_state)) \<le> 1 \<and>
   opens (in_sequence sample_geo sample_env [sample_call ''203.0.113.9'', sample_call ''198.51.100.7'']
            \<lparr>global_maxmind = Some sample_database, opens = [js ''/app/geo/GeoLite2-City.mmdb''],
             lookups = []\<rparr>) = [js ''/app/geo/GeoLite2-City.mmdb''] \<and>
   global_maxmind (in_sequence sample_geo sample_env [sample_call ''203.0.113.9'', sample_call ''198.51.100.7'']
            \<lparr>global_maxmind = Some sample_database, opens = [js ''/app/geo/GeoLite2-City.mmdb''],
             lookups = []\<rparr>) = Some sample_database"
proof -
  let ?calls = "[sample_call ''203.0.113.9'', sample_call ''198.51.100.7'']"
  let ?st = "\<lparr>global_maxmind = Some sample_database, opens = [js ''/app/geo/GeoLite2-City.mmdb''],
             lookups = []\<rparr>"
  have o: "maxmind_open sample_geo (database_path sample_geo sample_env) = Inr sample_database"
    by (rule sample_open)
  have i: "global_maxmind (initial_state :: sample_reader state) = None"
    "opens (initial_state :: sample_reader state) = []"
    by (simp_all add: initial_state_def)
  have s: "global_maxmind ?st = Some sample_database" "opens ?st = [js ''/app/geo/GeoLite2-City.mmdb'']"
    by simp_all
  have "(opens (in_sequence sample_geo sample_env ?calls initial_state) = opens (initial_state :: sample_reader state) \<and>
      global_maxmind (in_sequence sample_geo sample_env ?calls initial_state) = None) \<or>
     (opens (in_sequence sample_geo sample_env ?calls initial_state) =
        opens (initial_state :: sample_reader state) @ [database_path sample_geo sample_env] \<and>
      global_maxmind (in_sequence sample_geo sample_env ?calls initial_state) = Some sample_database)"
    using getLocation_opens_in_sequence [OF o, where st = initial_state and calls = ?calls] i(1)
    by blast
  then have 1: "length (opens (in_sequence sample_geo sample_env ?calls initial_state)) \<le> 1"
    using i(2) by (elim disjE conjE) (simp_all del: in_sequence.simps)
  have 2: "in_sequence sample_geo sample_env ?calls initial_state =
     \<lparr>global_maxmind = Some sample_database, opens = [js ''/app/geo/GeoLite2-City.mmdb''],
      lookups = [Some (js ''203.0.113.9''), Some (js ''198.51.100.7'')]\<rparr>"
    by (simp add: sample_call_fields getLocation_def sample_not_local sample_skip
          location_headers_empty database_lookup_def sample_open sample_path sample_lookup
          initial_state_def)
  have 3: "opens (in_sequence sample_geo sample_env ?calls ?st) = opens ?st \<and>
      global_maxmind (in_sequence sample_geo sample_env ?calls ?st) = Some sample_database"
    by (rule getLocation_opens_in_sequence [OF o, where st = ?st and calls = ?calls and r = sample_database,
          THEN conjunct1, THEN mp, OF s(1)])
  show ?thesis using o i(1) 1 2 3 s(2) by (simp only: simp_thms)
qed

text \<open>
  C8 as stated fails: nothing guards the test of the global. Two first calls that are
  both resumed from \<^verbatim>\<open>await isLocalhost\<close> before either open completes each find the
  global unset, and the database is opened twice.
\<close>

theorem getLocation_concurrent_opens_counterexample:
  "run_schedule sample_geo sample_env [0, 1, 0, 1]
     ([Called (sample_call ''203.0.113.9''), Called (sample_call ''198.51.100.7'')], initial_state) =
     ([Finished (Inr (Some \<lparr>country = Some (js ''DE''), region = Some (js ''DE-BE''),
                            city = Some (js ''Berlin'')\<rparr>)),
       Finished (Inr None)],
      \<lparr>global_maxmind = Some sample_database,
       opens = [js ''/app/geo/GeoLite2-City.mmdb'', js ''/app/geo/GeoLite2-City.mmdb''],
       lookups = [Some (js ''203.0.113.9''), Some (js ''198.51.100.7'')]\<rparr>) \<and>
   length (opens (snd (run_schedule sample_geo sample_env [0, 1, 0, 1]
     ([Called (sample_call ''203.0.113.9''), Called (sample_call ''198.51.100.7'')], initial_state)))) = 2"
proof -
  have "run_schedule sample_geo sample_env [0, 1, 0, 1]
     ([Called (sample_call ''203.0.113.9''), Called (sample_call ''198.51.100.7'')], initial_state) =
     ([Finished (Inr (Some \<lparr>country = Some (js ''DE''), region = Some (js ''DE-BE''),
                            city = Some (js ''Berlin'')\<rparr>)),
       Finished (Inr None)],
      \<lparr>global_maxmind = Some sample_database,
       opens = [js ''/app/geo/GeoLite2-City.mmdb'', js ''/app/geo/GeoLite2-City.mmdb''],
       lookups = [Some (js ''203.0.113.9''), Some (js ''198.51.100.7'')]\<rparr>)"
    by (simp add: resume_def sample_call_fields sample_not_local sample_skip
          location_headers_empty sample_open sample_path sample_lookup initial_state_def)
  then show ?thesis by simp
qed

end
